theory Spec2Isabelle
  imports Complex_Main "HOL-Library.AList" "HOL-Library.Char_ord" "HOL-Library.List_Lexorder"
begin

section \<open>JSON documents and the Go values decoded from them\<close>

text \<open>
  The servers of this repository speak JSON-RPC 2.0 over HTTP. They read a request with
  \<^verbatim>\<open>json.NewDecoder(r.Body).Decode(&req)\<close>, look at the parameters with
  \<^verbatim>\<open>json.Unmarshal(params, &v)\<close> and answer with \<^verbatim>\<open>json.NewEncoder(w).Encode(resp)\<close>.
  The byte-level scanner of \<^verbatim>\<open>encoding/json\<close> is library code: a document is
  represented here by the value it scans to. A string is the list of its bytes after
  unquoting, a number is the rational its literal denotes, an object keeps its members in the
  order and with the duplicates of the text.
\<close>

datatype json =
    JNull
  | JBool bool
  | JNumber rat
  | JString string
  | JArray "json list"
  | JObject "(string \<times> json) list"

text \<open>
  The two kinds of error that \<^verbatim>\<open>Unmarshal\<close> and \<^verbatim>\<open>Decode\<close> report: the
  text is not a JSON value (\<^verbatim>\<open>*json.SyntaxError\<close>; for an empty input
  \<^verbatim>\<open>Unmarshal\<close> says ``unexpected end of JSON input'' and \<^verbatim>\<open>Decode\<close>
  returns \<^verbatim>\<open>io.EOF\<close>), or a value does not fit the Go type it is stored into
  (\<^verbatim>\<open>*json.UnmarshalTypeError\<close>). The decoder goes on after a type error and
  returns the first one at the end; the callers here drop the decoded value whenever an error
  is returned, so the model stops at the first error.
\<close>

datatype decode_error = SyntaxError | UnmarshalTypeError

text \<open>
  A Go \<^verbatim>\<open>interface{}\<close> that was filled by the decoder holds \<^verbatim>\<open>nil\<close>, a
  \<^verbatim>\<open>bool\<close>, a \<^verbatim>\<open>float64\<close>, a \<^verbatim>\<open>string\<close>, a slice or a map. It is
  represented by the JSON value it was decoded from, \<^term>\<open>JNull\<close> being the nil interface.
  Whether a value is accepted is modelled exactly; what Go then holds is not: a number is
  kept as its literal denotes it, where Go rounds it to \<^verbatim>\<open>float64\<close>, and an
  object keeps its members in the order and with the duplicates of the text, where Go
  holds a map. The one failure is that of a number: \<^verbatim>\<open>strconv.ParseFloat\<close>
  reports a range error when the literal rounds to an infinity, and the decoder turns that
  into a type error. So an equation between identifiers below is one between the values
  the handlers pass on, not between the bytes read and written.
\<close>

definition inFloat64Range :: "rat \<Rightarrow> bool" where
  "inFloat64Range q \<longleftrightarrow> \<bar>q\<bar> < 2 ^ 1024 - 2 ^ 970"

fun numbersFit :: "json \<Rightarrow> bool" where
  "numbersFit (JNumber q) = inFloat64Range q"
| "numbersFit (JArray xs) = list_all numbersFit xs"
| "numbersFit (JObject kvs) = list_all (\<lambda>kv. numbersFit (snd kv)) kvs"
| "numbersFit _ = True"

definition storeInterface :: "json \<Rightarrow> decode_error + json" where
  "storeInterface item = (if numbersFit item then Inr item else Inl UnmarshalTypeError)"

text \<open>
  Storing into a Go \<^verbatim>\<open>string\<close>: a JSON string is stored, \<^verbatim>\<open>null\<close> leaves the
  old value, anything else is a type error.
\<close>

definition storeString :: "json \<Rightarrow> string \<Rightarrow> decode_error + string" where
  "storeString item old =
     (case item of
        JString s \<Rightarrow> Inr s
      | JNull \<Rightarrow> Inr old
      | _ \<Rightarrow> Inl UnmarshalTypeError)"

text \<open>
  The members of an object are stored one after the other, in the order of the text, each
  through the function \<open>field\<close> of the Go type that receives them.
\<close>

fun object :: "(string \<Rightarrow> json \<Rightarrow> 'a \<Rightarrow> decode_error + 'a) \<Rightarrow> (string \<times> json) list \<Rightarrow> 'a
    \<Rightarrow> decode_error + 'a" where
  "object field [] v = Inr v"
| "object field ((key, item) # rest) v =
     (case field key item v of
        Inl e \<Rightarrow> Inl e
      | Inr v' \<Rightarrow> object field rest v')"

text \<open>
  Storing into a struct: an object is stored member by member, \<^verbatim>\<open>null\<close> leaves the
  struct as it is, anything else is a type error.
\<close>

definition storeStruct :: "(string \<Rightarrow> json \<Rightarrow> 'a \<Rightarrow> decode_error + 'a) \<Rightarrow> json \<Rightarrow> 'a
    \<Rightarrow> decode_error + 'a" where
  "storeStruct field item v =
     (case item of
        JObject kvs \<Rightarrow> object field kvs v
      | JNull \<Rightarrow> Inr v
      | _ \<Rightarrow> Inl UnmarshalTypeError)"

text \<open>
  Storing into a \<^verbatim>\<open>map[string]interface{}\<close> (\<open>None\<close> is the nil map): an object adds
  its members to the map, allocated when it was nil; \<^verbatim>\<open>null\<close> sets the map to nil;
  anything else is a type error.
\<close>

type_synonym gomap = "(string \<times> json) list option"

definition mapEntry :: "string \<Rightarrow> json \<Rightarrow> (string \<times> json) list \<Rightarrow> decode_error + (string \<times> json) list" where
  "mapEntry key item m =
     (case storeInterface item of
        Inl e \<Rightarrow> Inl e
      | Inr x \<Rightarrow> Inr (AList.update key x m))"

definition storeMap :: "json \<Rightarrow> gomap \<Rightarrow> decode_error + gomap" where
  "storeMap item old =
     (case item of
        JObject kvs \<Rightarrow>
          (case object mapEntry kvs (case old of None \<Rightarrow> [] | Some m \<Rightarrow> m) of
             Inl e \<Rightarrow> Inl e
           | Inr m \<Rightarrow> Inr (Some m))
      | JNull \<Rightarrow> Inr None
      | _ \<Rightarrow> Inl UnmarshalTypeError)"

text \<open>
  A member is matched with a struct field by its key, ignoring case: the decoder compares
  the folded key with the folded field names (\<^verbatim>\<open>foldName\<close> in
  \<^verbatim>\<open>encoding/json\<close>). Folding puts ASCII letters in upper case, and sends the two
  other characters that Unicode folds to an ASCII letter to that letter: U+017F (bytes C5 BF)
  to S and U+212A (bytes E2 84 AA) to K. No two fields of a struct of this program have the
  same folded name, so the field of a key is the one with the same folded name.
\<close>

definition upperASCII :: "char \<Rightarrow> char" where
  "upperASCII c =
     (if CHR ''a'' \<le> c \<and> c \<le> CHR ''z'' then char_of (of_char c - (32::nat)) else c)"

fun foldName :: "string \<Rightarrow> string" where
  "foldName (a # b # c # cs) =
     (if a = CHR 0xE2 \<and> b = CHR 0x84 \<and> c = CHR 0xAA then CHR ''K'' # foldName cs
      else if a = CHR 0xC5 \<and> b = CHR 0xBF then CHR ''S'' # foldName (c # cs)
      else upperASCII a # foldName (b # c # cs))"
| "foldName [a, b] =
     (if a = CHR 0xC5 \<and> b = CHR 0xBF then [CHR ''S'']
      else [upperASCII a, upperASCII b])"
| "foldName [a] = [upperASCII a]"
| "foldName [] = []"


section \<open>The structures of main.go\<close>

text \<open>
  Each struct of \<^verbatim>\<open>src/store-mcp-server/main.go\<close> is a record with the fields of the
  struct. \<^verbatim>\<open>json.RawMessage\<close> is the text of one JSON value, or empty when the
  member was absent: \<open>json option\<close>. A pointer that may be nil is an \<open>option\<close>; a map is
  an association list.
\<close>

record JSONRPCRequest =
  JsonRPC :: string
  ID :: json
  Method :: string
  Params :: "json option"

text \<open>
  The field \<^verbatim>\<open>Data interface{}\<close> of an error holds nil (\<open>None\<close>), a string of the
  program, or the message \<^verbatim>\<open>err.Error()\<close> of a decoding error, whose text is the
  library's.
\<close>

datatype data = Str string | ErrorText decode_error

record RPCError =
  Code :: int
  Message :: string
  Data :: "data option"

record ClientCapabilities =
  Experimental :: gomap
  Sampling :: gomap

record ClientInfo =
  Name :: string
  Version :: string

record InitializeParams =
  ProtocolVersion :: string
  Capabilities :: ClientCapabilities
  ClientInfo :: ClientInfo

record ToolsCapability =
  ListChanged :: bool

record ServerCapabilities =
  Tools :: "ToolsCapability option"
  Experimental :: gomap

record ServerInfo =
  Name :: string
  Version :: string

record InitializeResult =
  ProtocolVersion :: string
  Capabilities :: ServerCapabilities
  ServerInfo :: ServerInfo

record Property =
  Type :: string
  Description :: string
  Enum :: "string list"

record InputSchema =
  Type :: string
  Properties :: "(string \<times> Property) list"
  Required :: "string list"

record Tool =
  Name :: string
  Description :: string
  InputSchema :: InputSchema

record ToolsListResult =
  Tools :: "Tool list"

record CallToolParams =
  Name :: string
  Arguments :: gomap

record Content =
  Type :: string
  Text :: string

record CallToolResult =
  Content :: "Content list"
  IsError :: bool

text \<open>
  \<^verbatim>\<open>Result interface{}\<close> holds nil (\<open>None\<close>) or one of the four values the handlers
  put there; \<open>EmptyStringMap\<close> is \<^verbatim>\<open>map[string]string{}\<close>.
\<close>

datatype result =
    ResInitialize InitializeResult
  | ResToolsList ToolsListResult
  | ResCallTool CallToolResult
  | EmptyStringMap

record JSONRPCResponse =
  JsonRPC :: string
  ID :: json
  Result :: "result option"
  Error :: "RPCError option"

text \<open>
  The server holds one flag. Its lock is not part of the model: requests are handled one
  after the other, each reading and writing the flag as a whole.
\<close>

record MCPServer =
  initialized :: bool

definition NewMCPServer :: MCPServer where
  "NewMCPServer = \<lparr>initialized = False\<rparr>"

section \<open>Decoding into the structures\<close>

definition field_ClientInfo :: "string \<Rightarrow> json \<Rightarrow> ClientInfo \<Rightarrow> decode_error + ClientInfo" where
  "field_ClientInfo key item v =
     (if foldName key = ''NAME'' then
        (case storeString item (ClientInfo.Name v) of
           Inl e \<Rightarrow> Inl e
         | Inr s \<Rightarrow> Inr (v\<lparr>ClientInfo.Name := s\<rparr>))
      else if foldName key = ''VERSION'' then
        (case storeString item (ClientInfo.Version v) of
           Inl e \<Rightarrow> Inl e
         | Inr s \<Rightarrow> Inr (v\<lparr>ClientInfo.Version := s\<rparr>))
      else Inr v)"

definition field_ClientCapabilities :: "string \<Rightarrow> json \<Rightarrow> ClientCapabilities
    \<Rightarrow> decode_error + ClientCapabilities" where
  "field_ClientCapabilities key item v =
     (if foldName key = ''EXPERIMENTAL'' then
        (case storeMap item (ClientCapabilities.Experimental v) of
           Inl e \<Rightarrow> Inl e
         | Inr m \<Rightarrow> Inr (v\<lparr>ClientCapabilities.Experimental := m\<rparr>))
      else if foldName key = ''SAMPLING'' then
        (case storeMap item (Sampling v) of
           Inl e \<Rightarrow> Inl e
         | Inr m \<Rightarrow> Inr (v\<lparr>Sampling := m\<rparr>))
      else Inr v)"

definition field_InitializeParams :: "string \<Rightarrow> json \<Rightarrow> InitializeParams
    \<Rightarrow> decode_error + InitializeParams" where
  "field_InitializeParams key item v =
     (if foldName key = ''PROTOCOLVERSION'' then
        (case storeString item (InitializeParams.ProtocolVersion v) of
           Inl e \<Rightarrow> Inl e
         | Inr s \<Rightarrow> Inr (v\<lparr>InitializeParams.ProtocolVersion := s\<rparr>))
      else if foldName key = ''CAPABILITIES'' then
        (case storeStruct field_ClientCapabilities item (InitializeParams.Capabilities v) of
           Inl e \<Rightarrow> Inl e
         | Inr c \<Rightarrow> Inr (v\<lparr>InitializeParams.Capabilities := c\<rparr>))
      else if foldName key = ''CLIENTINFO'' then
        (case storeStruct field_ClientInfo item (ClientInfo v) of
           Inl e \<Rightarrow> Inl e
         | Inr c \<Rightarrow> Inr (v\<lparr>ClientInfo := c\<rparr>))
      else Inr v)"

definition field_CallToolParams :: "string \<Rightarrow> json \<Rightarrow> CallToolParams
    \<Rightarrow> decode_error + CallToolParams" where
  "field_CallToolParams key item v =
     (if foldName key = ''NAME'' then
        (case storeString item (CallToolParams.Name v) of
           Inl e \<Rightarrow> Inl e
         | Inr s \<Rightarrow> Inr (v\<lparr>CallToolParams.Name := s\<rparr>))
      else if foldName key = ''ARGUMENTS'' then
        (case storeMap item (Arguments v) of
           Inl e \<Rightarrow> Inl e
         | Inr m \<Rightarrow> Inr (v\<lparr>Arguments := m\<rparr>))
      else Inr v)"

text \<open>
  A \<^verbatim>\<open>json.RawMessage\<close> member takes the text of its value as it is, whatever the
  value, \<^verbatim>\<open>null\<close> included.
\<close>

definition field_JSONRPCRequest :: "string \<Rightarrow> json \<Rightarrow> JSONRPCRequest
    \<Rightarrow> decode_error + JSONRPCRequest" where
  "field_JSONRPCRequest key item v =
     (if foldName key = ''JSONRPC'' then
        (case storeString item (JSONRPCRequest.JsonRPC v) of
           Inl e \<Rightarrow> Inl e
         | Inr s \<Rightarrow> Inr (v\<lparr>JSONRPCRequest.JsonRPC := s\<rparr>))
      else if foldName key = ''ID'' then
        (case storeInterface item of
           Inl e \<Rightarrow> Inl e
         | Inr x \<Rightarrow> Inr (v\<lparr>JSONRPCRequest.ID := x\<rparr>))
      else if foldName key = ''METHOD'' then
        (case storeString item (Method v) of
           Inl e \<Rightarrow> Inl e
         | Inr s \<Rightarrow> Inr (v\<lparr>Method := s\<rparr>))
      else if foldName key = ''PARAMS'' then Inr (v\<lparr>Params := Some item\<rparr>)
      else Inr v)"

text \<open>
  \<^verbatim>\<open>var initParams InitializeParams; json.Unmarshal(params, &initParams)\<close>: the target
  starts as the zero value; empty \<open>params\<close> is a syntax error.
\<close>

definition Unmarshal_InitializeParams :: "json option \<Rightarrow> decode_error + InitializeParams" where
  "Unmarshal_InitializeParams params =
     (case params of
        None \<Rightarrow> Inl SyntaxError
      | Some item \<Rightarrow>
          storeStruct field_InitializeParams item
            \<lparr>InitializeParams.ProtocolVersion = [],
             Capabilities = \<lparr>ClientCapabilities.Experimental = None, Sampling = None\<rparr>,
             ClientInfo = \<lparr>ClientInfo.Name = [], Version = []\<rparr>\<rparr>)"

definition Unmarshal_CallToolParams :: "json option \<Rightarrow> decode_error + CallToolParams" where
  "Unmarshal_CallToolParams params =
     (case params of
        None \<Rightarrow> Inl SyntaxError
      | Some item \<Rightarrow>
          storeStruct field_CallToolParams item \<lparr>CallToolParams.Name = [], Arguments = None\<rparr>)"

text \<open>
  \<^verbatim>\<open>var req JSONRPCRequest; json.NewDecoder(r.Body).Decode(&req)\<close>. The body is
  \<open>None\<close> when the decoder cannot read a JSON value from its bytes.
\<close>

definition Decode_JSONRPCRequest :: "json option \<Rightarrow> decode_error + JSONRPCRequest" where
  "Decode_JSONRPCRequest body =
     (case body of
        None \<Rightarrow> Inl SyntaxError
      | Some item \<Rightarrow>
          storeStruct field_JSONRPCRequest item
            \<lparr>JSONRPCRequest.JsonRPC = [], ID = JNull, Method = [], Params = None\<rparr>)"


section \<open>The dispatcher of main.go\<close>

text \<open>
  A method with the receiver \<^verbatim>\<open>s *MCPServer\<close> takes the server and returns it with its
  response. \<^verbatim>\<open>sendError\<close> only builds a value. The calls to \<^verbatim>\<open>log\<close> leave the
  server and the response alone and are left out.
\<close>

definition sendError :: "json \<Rightarrow> int \<Rightarrow> string \<Rightarrow> data option \<Rightarrow> JSONRPCResponse" where
  "sendError id' code message data' =
     \<lparr>JSONRPCResponse.JsonRPC = ''2.0'',
      ID = id',
      Result = None,
      Error = Some \<lparr>Code = code, Message = message, Data = data'\<rparr>\<rparr>"

definition initializeResult :: InitializeResult where
  "initializeResult =
     \<lparr>InitializeResult.ProtocolVersion = ''2024-11-05'',
      Capabilities = \<lparr>ServerCapabilities.Tools = Some \<lparr>ListChanged = False\<rparr>, Experimental = None\<rparr>,
      ServerInfo = \<lparr>ServerInfo.Name = ''indian-store-mcp-server'', Version = ''1.0.0''\<rparr>\<rparr>"

definition handleInitialize :: "MCPServer \<Rightarrow> json \<Rightarrow> json option \<Rightarrow> MCPServer \<times> JSONRPCResponse" where
  "handleInitialize s id' params =
     (case Unmarshal_InitializeParams params of
        Inl err \<Rightarrow> (s, sendError id' (- 32602) ''Invalid params'' (Some (ErrorText err)))
      | Inr initParams \<Rightarrow>
          (s\<lparr>initialized := True\<rparr>,
           \<lparr>JSONRPCResponse.JsonRPC = ''2.0'',
            ID = id',
            Result = Some (ResInitialize initializeResult),
            Error = None\<rparr>))"

definition handleToolsList :: "MCPServer \<Rightarrow> json \<Rightarrow> MCPServer \<times> JSONRPCResponse" where
  "handleToolsList s id' =
     (s,
      \<lparr>JSONRPCResponse.JsonRPC = ''2.0'',
       ID = id',
       Result = Some (ResToolsList
         \<lparr>ToolsListResult.Tools =
            [\<lparr>Tool.Name = ''list_indian_stores'',
              Description = ''List popular Indian online stores with their services'',
              InputSchema = \<lparr>InputSchema.Type = ''object'', Properties = [], Required = []\<rparr>\<rparr>]\<rparr>),
       Error = None\<rparr>)"

definition storeListText :: string where
  "storeListText =
     ''1. Flipkart - E-commerce platform offering electronics, fashion, home essentials\<newline>'' @
     ''2. Amazon India - Global e-commerce platform with wide product range\<newline>'' @
     ''3. Reliance Digital - Electronics and appliances retailer\<newline>'' @
     ''4. Myntra - Fashion and lifestyle e-commerce platform\<newline>'' @
     ''5. Snapdeal - E-commerce platform with various product categories\<newline>'' @
     ''6. Tata CLiQ - Digital commerce platform by Tata Group''"

definition handleCallTool :: "MCPServer \<Rightarrow> json \<Rightarrow> json option \<Rightarrow> MCPServer \<times> JSONRPCResponse" where
  "handleCallTool s id' params =
     (case Unmarshal_CallToolParams params of
        Inl err \<Rightarrow> (s, sendError id' (- 32602) ''Invalid params'' (Some (ErrorText err)))
      | Inr callParams \<Rightarrow>
          (if CallToolParams.Name callParams = ''list_indian_stores'' then
             (s,
              \<lparr>JSONRPCResponse.JsonRPC = ''2.0'',
               ID = id',
               Result = Some (ResCallTool
                 \<lparr>Content = [\<lparr>Content.Type = ''text'', Text = storeListText\<rparr>], IsError = False\<rparr>),
               Error = None\<rparr>)
           else (s, sendError id' (- 32601) ''Unknown tool'' (Some (Str (CallToolParams.Name callParams))))))"

text \<open>
  \<^verbatim>\<open>JSONRPCResponse{}\<close>, the value with every field zero, is what the dispatcher returns
  for the notification (``No response for notifications'').
\<close>

definition noResponse :: JSONRPCResponse where
  "noResponse = \<lparr>JSONRPCResponse.JsonRPC = [], ID = JNull, Result = None, Error = None\<rparr>"

definition handleRequest :: "MCPServer \<Rightarrow> JSONRPCRequest \<Rightarrow> MCPServer \<times> JSONRPCResponse" where
  "handleRequest s req =
     (if JSONRPCRequest.Method req = ''initialize'' then
        handleInitialize s (JSONRPCRequest.ID req) (Params req)
      else if JSONRPCRequest.Method req = ''notifications/initialized'' then
        (s, noResponse)
      else if JSONRPCRequest.Method req = ''tools/list'' then
        (if \<not> initialized s then
           (s, sendError (JSONRPCRequest.ID req) (- 32002) ''Server not initialized'' None)
         else handleToolsList s (JSONRPCRequest.ID req))
      else if JSONRPCRequest.Method req = ''tools/call'' then
        (if \<not> initialized s then
           (s, sendError (JSONRPCRequest.ID req) (- 32002) ''Server not initialized'' None)
         else handleCallTool s (JSONRPCRequest.ID req) (Params req))
      else if JSONRPCRequest.Method req = ''ping'' then
        (s,
         \<lparr>JSONRPCResponse.JsonRPC = ''2.0'',
          ID = JSONRPCRequest.ID req,
          Result = Some EmptyStringMap,
          Error = None\<rparr>)
      else
        (s, sendError (JSONRPCRequest.ID req) (- 32601) ''Method not found'' (Some (Str (JSONRPCRequest.Method req)))))"

text \<open>A server handling a sequence of requests, one after the other.\<close>

fun serve :: "MCPServer \<Rightarrow> JSONRPCRequest list \<Rightarrow> MCPServer \<times> JSONRPCResponse list" where
  "serve s [] = (s, [])"
| "serve s (req # reqs) =
     (case handleRequest s req of
        (s', resp) \<Rightarrow> (case serve s' reqs of (s'', resps) \<Rightarrow> (s'', resp # resps)))"

section \<open>The HTTP handler of main.go\<close>

text \<open>
  Of the request the handler reads the HTTP method and the body; to the response it sets
  headers (not modelled), a status and a body. What is written to the body is a line of
  text (\<^verbatim>\<open>http.Error\<close>) or the output of \<^verbatim>\<open>Encode\<close> for a response:
  \<open>Encoded resp\<close> is the JSON text of \<open>resp\<close> and a newline.
\<close>

record Request =
  Method :: string
  Body :: "json option"

datatype written = Line string | Encoded JSONRPCResponse

record ResponseWriter =
  status :: nat
  body :: "written list"

definition handleMCPRequest :: "MCPServer \<Rightarrow> Request \<Rightarrow> MCPServer \<times> ResponseWriter" where
  "handleMCPRequest s r =
     (if Request.Method r = ''OPTIONS'' then (s, \<lparr>status = 200, body = []\<rparr>)
      else if Request.Method r \<noteq> ''POST'' then
        (s, \<lparr>status = 405, body = [Line ''Only POST method is allowed'']\<rparr>)
      else
        (case Decode_JSONRPCRequest (Body r) of
           Inl err \<Rightarrow>
             (s,
              \<lparr>status = 200,
               body = [Encoded
                 \<lparr>JSONRPCResponse.JsonRPC = ''2.0'',
                  ID = JNull,
                  Result = None,
                  Error = Some \<lparr>Code = - 32700, Message = ''Parse error: Invalid JSON'', Data = None\<rparr>\<rparr>]\<rparr>)
         | Inr req \<Rightarrow>
             (case handleRequest s req of
                (s', response) \<Rightarrow> (s', \<lparr>status = 200, body = [Encoded response]\<rparr>))))"


section \<open>What Encode writes\<close>

text \<open>
  \<^verbatim>\<open>Encode\<close> writes the exported fields of a struct in their order, under the names of
  their tags. A field tagged \<^verbatim>\<open>omitempty\<close> is left out when it is false, a nil pointer
  or interface, or an empty string, slice or map. A map is written with its keys sorted. The
  text of the message of a decoding error is the library's: it is the parameter
  \<open>errorText\<close>.
\<close>

definition encode_gomap :: "(string \<times> json) list \<Rightarrow> json" where
  "encode_gomap m = JObject (sort_key fst m)"

definition encode_Property :: "Property \<Rightarrow> json" where
  "encode_Property p =
     JObject ([(''type'', JString (Property.Type p))] @
       (if Property.Description p = [] then [] else [(''description'', JString (Property.Description p))]) @
       (if Enum p = [] then [] else [(''enum'', JArray (map JString (Enum p)))]))"

definition encode_InputSchema :: "InputSchema \<Rightarrow> json" where
  "encode_InputSchema i =
     JObject ([(''type'', JString (InputSchema.Type i))] @
       (if Properties i = [] then []
        else [(''properties'', JObject (map (\<lambda>(k, p). (k, encode_Property p)) (sort_key fst (Properties i))))]) @
       (if Required i = [] then [] else [(''required'', JArray (map JString (Required i)))]))"

definition encode_Tool :: "Tool \<Rightarrow> json" where
  "encode_Tool t =
     JObject [(''name'', JString (Tool.Name t)),
              (''description'', JString (Tool.Description t)),
              (''inputSchema'', encode_InputSchema (InputSchema t))]"

definition encode_ServerCapabilities :: "ServerCapabilities \<Rightarrow> json" where
  "encode_ServerCapabilities c =
     JObject ((case ServerCapabilities.Tools c of
                 None \<Rightarrow> []
               | Some t \<Rightarrow> [(''tools'', JObject (if ListChanged t then [(''listChanged'', JBool True)] else []))]) @
              (case ServerCapabilities.Experimental c of
                 None \<Rightarrow> []
               | Some m \<Rightarrow> if m = [] then [] else [(''experimental'', encode_gomap m)]))"

definition encode_Content :: "Content \<Rightarrow> json" where
  "encode_Content c = JObject [(''type'', JString (Content.Type c)), (''text'', JString (Text c))]"

fun encode_result :: "result \<Rightarrow> json" where
  "encode_result (ResInitialize r) =
     JObject [(''protocolVersion'', JString (InitializeResult.ProtocolVersion r)),
              (''capabilities'', encode_ServerCapabilities (InitializeResult.Capabilities r)),
              (''serverInfo'', JObject [(''name'', JString (ServerInfo.Name (ServerInfo r))),
                                       (''version'', JString (ServerInfo.Version (ServerInfo r)))])]"
| "encode_result (ResToolsList r) = JObject [(''tools'', JArray (map encode_Tool (ToolsListResult.Tools r)))]"
| "encode_result (ResCallTool r) =
     JObject ((''content'', JArray (map encode_Content (Content r))) #
              (if IsError r then [(''isError'', JBool True)] else []))"
| "encode_result EmptyStringMap = JObject []"

definition encode_RPCError :: "(decode_error \<Rightarrow> string) \<Rightarrow> RPCError \<Rightarrow> json" where
  "encode_RPCError errorText e =
     JObject ([(''code'', JNumber (of_int (Code e))), (''message'', JString (Message e))] @
       (case Data e of
          None \<Rightarrow> []
        | Some (Str t) \<Rightarrow> [(''data'', JString t)]
        | Some (ErrorText err) \<Rightarrow> [(''data'', JString (errorText err))]))"

definition encode_JSONRPCResponse :: "(decode_error \<Rightarrow> string) \<Rightarrow> JSONRPCResponse \<Rightarrow> json" where
  "encode_JSONRPCResponse errorText resp =
     JObject ([(''jsonrpc'', JString (JSONRPCResponse.JsonRPC resp))] @
       (if JSONRPCResponse.ID resp = JNull then [] else [(''id'', JSONRPCResponse.ID resp)]) @
       (case Result resp of None \<Rightarrow> [] | Some r \<Rightarrow> [(''result'', encode_result r)]) @
       (case Error resp of None \<Rightarrow> [] | Some e \<Rightarrow> [(''error'', encode_RPCError errorText e)]))"

section \<open>The two other servers of the repository\<close>

text \<open>
  The repository holds two more versions of the server (the two files of
  \<^verbatim>\<open>src/unnamed/part_000\<close>). Their functions have the names of those of main.go and
  carry the suffix \<open>_v2\<close> (first file) or \<open>_v3\<close> (second file) here. Their structs are
  those of main.go without some fields that main.go leaves at their zero value, so the
  records above serve for them too. \<^verbatim>\<open>sendError\<close> of the first file is that of main.go.
  Both files build the same list of tools and the same result of the tool, written in place
  in their handlers: they are \<open>toolsListResult_v2\<close> and \<open>callToolResult_v2\<close> here.
\<close>

definition isInitialized_v2 :: "MCPServer \<Rightarrow> bool" where
  "isInitialized_v2 s = initialized s"

definition handleInitialize_v2 :: "MCPServer \<Rightarrow> json \<Rightarrow> json option \<Rightarrow> MCPServer \<times> JSONRPCResponse" where
  "handleInitialize_v2 s id' params =
     (case Unmarshal_InitializeParams params of
        Inl err \<Rightarrow> (s, sendError id' (- 32602) ''Invalid params'' (Some (ErrorText err)))
      | Inr initParams \<Rightarrow>
          (s\<lparr>initialized := True\<rparr>,
           \<lparr>JSONRPCResponse.JsonRPC = ''2.0'',
            ID = id',
            Result = Some (ResInitialize
              \<lparr>InitializeResult.ProtocolVersion = ''2024-11-05'',
               Capabilities = \<lparr>ServerCapabilities.Tools = Some \<lparr>ListChanged = False\<rparr>, Experimental = None\<rparr>,
               ServerInfo = \<lparr>ServerInfo.Name = ''indian-store-mcp-server'', Version = ''1.0.0''\<rparr>\<rparr>),
            Error = None\<rparr>))"

definition toolsListResult_v2 :: result where
  "toolsListResult_v2 =
     ResToolsList
       \<lparr>ToolsListResult.Tools =
          [\<lparr>Tool.Name = ''list_indian_stores'',
            Description = ''List popular Indian online stores'',
            InputSchema = \<lparr>InputSchema.Type = ''object'', Properties = [], Required = []\<rparr>\<rparr>]\<rparr>"

definition callToolResult_v2 :: result where
  "callToolResult_v2 =
     ResCallTool
       \<lparr>Content = [\<lparr>Content.Type = ''text'',
                    Text = ''Flipkart, Amazon India, Reliance Digital, Myntra, Snapdeal, Tata CLiQ''\<rparr>],
        IsError = False\<rparr>"

definition handleToolsList_v2 :: "MCPServer \<Rightarrow> json \<Rightarrow> MCPServer \<times> JSONRPCResponse" where
  "handleToolsList_v2 s id' =
     (s, \<lparr>JSONRPCResponse.JsonRPC = ''2.0'', ID = id', Result = Some toolsListResult_v2, Error = None\<rparr>)"

definition handleCallTool_v2 :: "MCPServer \<Rightarrow> json \<Rightarrow> json option \<Rightarrow> MCPServer \<times> JSONRPCResponse" where
  "handleCallTool_v2 s id' params =
     (s, \<lparr>JSONRPCResponse.JsonRPC = ''2.0'', ID = id', Result = Some callToolResult_v2, Error = None\<rparr>)"

definition handleRequest_v2 :: "MCPServer \<Rightarrow> JSONRPCRequest \<Rightarrow> MCPServer \<times> JSONRPCResponse" where
  "handleRequest_v2 s req =
     (if JSONRPCRequest.Method req = ''initialize'' then
        handleInitialize_v2 s (JSONRPCRequest.ID req) (Params req)
      else if JSONRPCRequest.Method req = ''notifications/initialized'' then
        (s, noResponse)
      else if JSONRPCRequest.Method req = ''tools/list'' then
        (if \<not> isInitialized_v2 s then
           (s, sendError (JSONRPCRequest.ID req) (- 32002) ''Server not initialized'' None)
         else handleToolsList_v2 s (JSONRPCRequest.ID req))
      else if JSONRPCRequest.Method req = ''tools/call'' then
        (if \<not> isInitialized_v2 s then
           (s, sendError (JSONRPCRequest.ID req) (- 32002) ''Server not initialized'' None)
         else handleCallTool_v2 s (JSONRPCRequest.ID req) (Params req))
      else if JSONRPCRequest.Method req = ''ping'' then
        (s,
         \<lparr>JSONRPCResponse.JsonRPC = ''2.0'',
          ID = JSONRPCRequest.ID req,
          Result = Some EmptyStringMap,
          Error = None\<rparr>)
      else
        (s, sendError (JSONRPCRequest.ID req) (- 32601) ''Method not found''
              (Some (Str (JSONRPCRequest.Method req)))))"

text \<open>
  In the second file \<^verbatim>\<open>sendError\<close> takes no data, and \<^verbatim>\<open>handleRequest\<close> does all
  the work itself: it has no case for the notification, it does not look at the parameters,
  and it writes the flag of the server without ever reading it.
\<close>

definition sendError_v3 :: "json \<Rightarrow> int \<Rightarrow> string \<Rightarrow> JSONRPCResponse" where
  "sendError_v3 id' code msg =
     \<lparr>JSONRPCResponse.JsonRPC = ''2.0'',
      ID = id',
      Result = None,
      Error = Some \<lparr>Code = code, Message = msg, Data = None\<rparr>\<rparr>"

definition handleRequest_v3 :: "MCPServer \<Rightarrow> JSONRPCRequest \<Rightarrow> MCPServer \<times> JSONRPCResponse" where
  "handleRequest_v3 s req =
     (if JSONRPCRequest.Method req = ''initialize'' then
        (s\<lparr>initialized := True\<rparr>,
         \<lparr>JSONRPCResponse.JsonRPC = ''2.0'',
          ID = JSONRPCRequest.ID req,
          Result = Some (ResInitialize
            \<lparr>InitializeResult.ProtocolVersion = ''2024-11-05'',
             Capabilities = \<lparr>ServerCapabilities.Tools = Some \<lparr>ListChanged = False\<rparr>, Experimental = None\<rparr>,
             ServerInfo = \<lparr>ServerInfo.Name = ''store-mcp-server'', Version = ''0.002''\<rparr>\<rparr>),
          Error = None\<rparr>)
      else if JSONRPCRequest.Method req = ''tools/list'' then
        (s,
         \<lparr>JSONRPCResponse.JsonRPC = ''2.0'',
          ID = JSONRPCRequest.ID req,
          Result = Some toolsListResult_v2,
          Error = None\<rparr>)
      else if JSONRPCRequest.Method req = ''tools/call'' then
        (s,
         \<lparr>JSONRPCResponse.JsonRPC = ''2.0'',
          ID = JSONRPCRequest.ID req,
          Result = Some callToolResult_v2,
          Error = None\<rparr>)
      else if JSONRPCRequest.Method req = ''ping'' then
        (s,
         \<lparr>JSONRPCResponse.JsonRPC = ''2.0'',
          ID = JSONRPCRequest.ID req,
          Result = Some EmptyStringMap,
          Error = None\<rparr>)
      else (s, sendError_v3 (JSONRPCRequest.ID req) (- 32601) ''Method not found''))"


section \<open>Parameters that fit the structure of the handshake\<close>

text \<open>
  A description of the JSON values that fit \<^verbatim>\<open>InitializeParams\<close>, written on the
  values alone: a member counts when its key is, ignoring case, the tag of a field, and it
  fits when its value is of the JSON kind of that field or \<^verbatim>\<open>null\<close>. The members of
  the two maps of \<^verbatim>\<open>capabilities\<close> may be any values whose numbers are in the range of
  \<^verbatim>\<open>float64\<close>. Members with other keys do not count.
\<close>

definition fitsString :: "json \<Rightarrow> bool" where
  "fitsString item = (case item of JString s \<Rightarrow> True | JNull \<Rightarrow> True | _ \<Rightarrow> False)"

definition fitsMap :: "json \<Rightarrow> bool" where
  "fitsMap item =
     (case item of
        JObject kvs \<Rightarrow> list_all (\<lambda>(key, v). numbersFit v) kvs
      | JNull \<Rightarrow> True
      | _ \<Rightarrow> False)"

definition fitsClientInfo :: "json \<Rightarrow> bool" where
  "fitsClientInfo item =
     (case item of
        JObject kvs \<Rightarrow>
          list_all (\<lambda>(key, v). foldName key = ''NAME'' \<or> foldName key = ''VERSION'' \<longrightarrow> fitsString v) kvs
      | JNull \<Rightarrow> True
      | _ \<Rightarrow> False)"

definition fitsClientCapabilities :: "json \<Rightarrow> bool" where
  "fitsClientCapabilities item =
     (case item of
        JObject kvs \<Rightarrow>
          list_all (\<lambda>(key, v). foldName key = ''EXPERIMENTAL'' \<or> foldName key = ''SAMPLING'' \<longrightarrow> fitsMap v) kvs
      | JNull \<Rightarrow> True
      | _ \<Rightarrow> False)"

definition fitsInitializeParams :: "json \<Rightarrow> bool" where
  "fitsInitializeParams item =
     (case item of
        JObject kvs \<Rightarrow>
          list_all (\<lambda>(key, v).
            (foldName key = ''PROTOCOLVERSION'' \<longrightarrow> fitsString v) \<and>
            (foldName key = ''CAPABILITIES'' \<longrightarrow> fitsClientCapabilities v) \<and>
            (foldName key = ''CLIENTINFO'' \<longrightarrow> fitsClientInfo v)) kvs
      | JNull \<Rightarrow> True
      | _ \<Rightarrow> False)"

section \<open>Facts about the decoder\<close>

lemmas handler_defs = handleRequest_def handleInitialize_def handleToolsList_def handleCallTool_def
  sendError_def noResponse_def

lemmas eval_defs = upperASCII_def char_of_eq_iff storeStruct_def storeString_def storeInterface_def
  storeMap_def mapEntry_def inFloat64Range_def field_JSONRPCRequest_def field_InitializeParams_def
  field_ClientInfo_def field_ClientCapabilities_def field_CallToolParams_def
  Unmarshal_InitializeParams_def Unmarshal_CallToolParams_def Decode_JSONRPCRequest_def

text \<open>
  Storing the members of an object fails exactly when one member fails, provided the failure
  of a member does not depend on what was stored before it.
\<close>

lemma object_isl:
  assumes "\<And>key item v. isl (field key item v) \<longleftrightarrow> \<not> P key item"
  shows "isl (object field kvs v) \<longleftrightarrow> \<not> list_all (\<lambda>(key, item). P key item) kvs"
proof (induction kvs arbitrary: v)
  case Nil
  show ?case by simp
next
  case (Cons kv kvs)
  obtain key item where kv: "kv = (key, item)" by (cases kv)
  show ?case
  proof (cases "field key item v")
    case (Inl e)
    with assms [of key item v] show ?thesis by (simp add: kv)
  next
    case (Inr v')
    with assms [of key item v] Cons.IH [of v'] show ?thesis by (simp add: kv)
  qed
qed

lemma object_error:
  assumes "\<And>key item v e. field key item v = Inl e \<Longrightarrow> e = UnmarshalTypeError"
    and "object field kvs v = Inl e"
  shows "e = UnmarshalTypeError"
  using assms(2)
proof (induction kvs arbitrary: v)
  case Nil
  then show ?case by simp
next
  case (Cons kv kvs)
  obtain key item where kv: "kv = (key, item)" by (cases kv)
  show ?case
  proof (cases "field key item v")
    case (Inl e')
    with Cons.prems assms(1) [of key item v e'] show ?thesis by (simp add: kv)
  next
    case (Inr v')
    with Cons.prems Cons.IH [of v'] show ?thesis by (simp add: kv)
  qed
qed

lemma storeStruct_isl:
  assumes "\<And>key item v. isl (field key item v) \<longleftrightarrow> \<not> P key item"
  shows "isl (storeStruct field item v) \<longleftrightarrow>
    \<not> (case item of JObject kvs \<Rightarrow> list_all (\<lambda>(key, item). P key item) kvs | JNull \<Rightarrow> True | _ \<Rightarrow> False)"
  by (cases item) (simp_all add: storeStruct_def object_isl [of field P, OF assms])

lemma storeStruct_error:
  assumes "\<And>key item v e. field key item v = Inl e \<Longrightarrow> e = UnmarshalTypeError"
    and "storeStruct field item v = Inl e"
  shows "e = UnmarshalTypeError"
proof (cases item)
  case (JObject kvs)
  with assms(2) have "object field kvs v = Inl e"
    by (simp add: storeStruct_def)
  with assms(1) show ?thesis
    by (rule object_error)
qed (use assms(2) in \<open>simp_all add: storeStruct_def\<close>)

lemma storeString_isl: "isl (storeString item old) \<longleftrightarrow> \<not> fitsString item"
  by (cases item) (simp_all add: storeString_def fitsString_def)

lemma storeString_error: "storeString item old = Inl e \<Longrightarrow> e = UnmarshalTypeError"
  by (cases item) (simp_all add: storeString_def)

lemma mapEntry_isl: "isl (mapEntry key item m) \<longleftrightarrow> \<not> numbersFit item"
  by (simp add: mapEntry_def storeInterface_def)

lemma mapEntry_error: "mapEntry key item m = Inl e \<Longrightarrow> e = UnmarshalTypeError"
  by (simp add: mapEntry_def storeInterface_def split: if_splits)

lemma storeMap_isl: "isl (storeMap item old) \<longleftrightarrow> \<not> fitsMap item"
proof (cases item)
  case (JObject kvs)
  have "isl (object mapEntry kvs m) \<longleftrightarrow> \<not> list_all (\<lambda>(key, v). numbersFit v) kvs" for m
    by (rule object_isl) (rule mapEntry_isl)
  then show ?thesis
    by (simp add: JObject storeMap_def fitsMap_def split: sum.splits) (metis isl_def sum.disc(2))
qed (simp_all add: storeMap_def fitsMap_def)

lemma storeMap_error:
  assumes "storeMap item old = Inl e"
  shows "e = UnmarshalTypeError"
proof (cases item)
  case (JObject kvs)
  with assms have "object mapEntry kvs (case old of None \<Rightarrow> [] | Some m \<Rightarrow> m) = Inl e"
    by (simp add: storeMap_def split: sum.splits)
  then show ?thesis
    by (rule object_error [rotated]) (rule mapEntry_error)
qed (use assms in \<open>simp_all add: storeMap_def\<close>)

lemma field_ClientInfo_isl:
  "isl (field_ClientInfo key item v) \<longleftrightarrow>
   \<not> (foldName key = ''NAME'' \<or> foldName key = ''VERSION'' \<longrightarrow> fitsString item)"
  using storeString_isl [of item "ClientInfo.Name v"] storeString_isl [of item "ClientInfo.Version v"]
  by (auto simp: field_ClientInfo_def split: sum.splits)

lemma field_ClientInfo_error: "field_ClientInfo key item v = Inl e \<Longrightarrow> e = UnmarshalTypeError"
  by (auto simp: field_ClientInfo_def split: sum.splits if_splits dest: storeString_error)

lemma field_ClientCapabilities_isl:
  "isl (field_ClientCapabilities key item v) \<longleftrightarrow>
   \<not> (foldName key = ''EXPERIMENTAL'' \<or> foldName key = ''SAMPLING'' \<longrightarrow> fitsMap item)"
  using storeMap_isl [of item "ClientCapabilities.Experimental v"] storeMap_isl [of item "Sampling v"]
  by (auto simp: field_ClientCapabilities_def split: sum.splits)

lemma field_ClientCapabilities_error:
  "field_ClientCapabilities key item v = Inl e \<Longrightarrow> e = UnmarshalTypeError"
  by (auto simp: field_ClientCapabilities_def split: sum.splits if_splits dest: storeMap_error)

lemma storeStruct_ClientInfo_isl:
  "isl (storeStruct field_ClientInfo item v) \<longleftrightarrow> \<not> fitsClientInfo item"
  unfolding fitsClientInfo_def by (rule storeStruct_isl) (rule field_ClientInfo_isl)

lemma storeStruct_ClientCapabilities_isl:
  "isl (storeStruct field_ClientCapabilities item v) \<longleftrightarrow> \<not> fitsClientCapabilities item"
  unfolding fitsClientCapabilities_def by (rule storeStruct_isl) (rule field_ClientCapabilities_isl)

lemma storeStruct_ClientInfo_error:
  assumes "storeStruct field_ClientInfo item v = Inl e"
  shows "e = UnmarshalTypeError"
  using field_ClientInfo_error assms by (rule storeStruct_error)

lemma storeStruct_ClientCapabilities_error:
  assumes "storeStruct field_ClientCapabilities item v = Inl e"
  shows "e = UnmarshalTypeError"
  using field_ClientCapabilities_error assms by (rule storeStruct_error)

lemma field_InitializeParams_isl:
  "isl (field_InitializeParams key item v) \<longleftrightarrow>
   \<not> ((foldName key = ''PROTOCOLVERSION'' \<longrightarrow> fitsString item) \<and>
      (foldName key = ''CAPABILITIES'' \<longrightarrow> fitsClientCapabilities item) \<and>
      (foldName key = ''CLIENTINFO'' \<longrightarrow> fitsClientInfo item))"
  using storeString_isl [of item "InitializeParams.ProtocolVersion v"]
    storeStruct_ClientCapabilities_isl [of item "InitializeParams.Capabilities v"]
    storeStruct_ClientInfo_isl [of item "ClientInfo v"]
  by (auto simp: field_InitializeParams_def split: sum.splits)

lemma field_InitializeParams_error:
  "field_InitializeParams key item v = Inl e \<Longrightarrow> e = UnmarshalTypeError"
  by (auto simp: field_InitializeParams_def split: sum.splits if_splits
      dest: storeString_error storeStruct_ClientCapabilities_error storeStruct_ClientInfo_error)

lemma Unmarshal_InitializeParams_isl:
  "isl (Unmarshal_InitializeParams (Some item)) \<longleftrightarrow> \<not> fitsInitializeParams item"
  unfolding fitsInitializeParams_def Unmarshal_InitializeParams_def option.case
  by (rule storeStruct_isl) (rule field_InitializeParams_isl)

lemma Unmarshal_InitializeParams_error:
  "Unmarshal_InitializeParams (Some item) = Inl e \<Longrightarrow> e = UnmarshalTypeError"
  unfolding Unmarshal_InitializeParams_def option.case
  using field_InitializeParams_error by (rule storeStruct_error)

section \<open>Facts about the dispatcher of main.go\<close>

lemma fst_serve_Cons: "fst (serve s (req # reqs)) = fst (serve (fst (handleRequest s req)) reqs)"
  by (simp split: prod.splits)

lemma snd_serve_Cons:
  "snd (serve s (req # reqs)) = snd (handleRequest s req) # snd (serve (fst (handleRequest s req)) reqs)"
  by (simp split: prod.splits)

text \<open>The flag is never reset: once set it stays set, whatever requests follow.\<close>

lemma handleRequest_keeps_initialized: "initialized s \<Longrightarrow> initialized (fst (handleRequest s req))"
  by (auto simp: handler_defs split: sum.splits)

lemma serve_keeps_initialized: "initialized s \<Longrightarrow> initialized (fst (serve s reqs))"
proof (induction reqs arbitrary: s)
  case Nil
  then show ?case by simp
next
  case (Cons req reqs)
  from Cons.prems have "initialized (fst (handleRequest s req))"
    by (rule handleRequest_keeps_initialized)
  then have "initialized (fst (serve (fst (handleRequest s req)) reqs))"
    by (rule Cons.IH)
  then show ?case by (simp only: fst_serve_Cons)
qed

text \<open>Only an \<^verbatim>\<open>initialize\<close> whose parameters decode sets the flag.\<close>

lemma handleRequest_sets_flag_only_by_initialize:
  assumes "\<not> initialized s" and "initialized (fst (handleRequest s req))"
  shows "JSONRPCRequest.Method req = ''initialize'' \<and> \<not> isl (Unmarshal_InitializeParams (Params req))"
  using assms by (auto simp: handler_defs split: sum.splits if_splits)

lemma handleRequest_initialize_accepted:
  assumes "JSONRPCRequest.Method req = ''initialize''"
    and "\<not> isl (Unmarshal_InitializeParams (Params req))"
  shows "handleRequest s req =
    (s\<lparr>initialized := True\<rparr>,
     \<lparr>JSONRPCResponse.JsonRPC = ''2.0'', ID = JSONRPCRequest.ID req,
      Result = Some (ResInitialize initializeResult), Error = None\<rparr>)"
  using assms by (auto simp: handleRequest_def handleInitialize_def split: sum.splits)

text \<open>
  In main.go and in the first of the two other servers the two gated methods answer with
  the error -32002 and nothing else while the flag is not set, and never with that error once
  it is set.
\<close>

lemma handleRequest_gate_closed:
  assumes "\<not> initialized s"
    and "JSONRPCRequest.Method req = ''tools/list'' \<or> JSONRPCRequest.Method req = ''tools/call''"
  shows "handleRequest s req =
    (s, \<lparr>JSONRPCResponse.JsonRPC = ''2.0'', ID = JSONRPCRequest.ID req, Result = None,
         Error = Some \<lparr>Code = - 32002, Message = ''Server not initialized'', Data = None\<rparr>\<rparr>)"
  using assms by (auto simp: handleRequest_def sendError_def)

lemma handleRequest_gate_open:
  assumes "initialized s"
  shows "\<forall>e. Error (snd (handleRequest s req)) = Some e \<longrightarrow> Code e \<noteq> - 32002"
  using assms by (auto simp: handler_defs split: sum.splits)

lemma serve_gate_open:
  assumes "initialized s"
  shows "\<forall>resp\<in>set (snd (serve s reqs)). \<forall>e. Error resp = Some e \<longrightarrow> Code e \<noteq> - 32002"
  using assms
proof (induction reqs arbitrary: s)
  case Nil
  show ?case by simp
next
  case (Cons req reqs)
  from Cons.prems have "initialized (fst (handleRequest s req))"
    by (rule handleRequest_keeps_initialized)
  then have "\<forall>resp\<in>set (snd (serve (fst (handleRequest s req)) reqs)).
      \<forall>e. Error resp = Some e \<longrightarrow> Code e \<noteq> - 32002"
    by (rule Cons.IH)
  with handleRequest_gate_open [OF Cons.prems, of req] show ?case
    by (simp add: snd_serve_Cons del: serve.simps)
qed

lemma handleRequest_v2_gate_closed:
  assumes "\<not> initialized s"
    and "JSONRPCRequest.Method req = ''tools/list'' \<or> JSONRPCRequest.Method req = ''tools/call''"
  shows "handleRequest_v2 s req =
    (s, \<lparr>JSONRPCResponse.JsonRPC = ''2.0'', ID = JSONRPCRequest.ID req, Result = None,
         Error = Some \<lparr>Code = - 32002, Message = ''Server not initialized'', Data = None\<rparr>\<rparr>)"
  using assms by (auto simp: handleRequest_v2_def isInitialized_v2_def sendError_def)

lemma handleRequest_v2_gate_open:
  assumes "initialized s"
  shows "\<forall>e. Error (snd (handleRequest_v2 s req)) = Some e \<longrightarrow> Code e \<noteq> - 32002"
  using assms
  by (auto simp: handleRequest_v2_def isInitialized_v2_def handleInitialize_v2_def
      handleToolsList_v2_def handleCallTool_v2_def sendError_def noResponse_def split: sum.splits)

text \<open>
  The dispatcher of the second of the two other servers answers without regard to the
  flag.
\<close>

lemma handleRequest_v3_ignores_flag: "snd (handleRequest_v3 s req) = snd (handleRequest_v3 s' req)"
  by (simp add: handleRequest_v3_def)

text \<open>
  Every method but the notification answers with the identifier of the request, and a body
  that does not decode is answered with the nil identifier.
\<close>

lemma handleRequest_echoes_ID:
  assumes "JSONRPCRequest.Method req \<noteq> ''notifications/initialized''"
  shows "JSONRPCResponse.ID (snd (handleRequest s req)) = JSONRPCRequest.ID req"
  using assms by (auto simp: handler_defs split: sum.splits)

lemma handleMCPRequest_parse_error:
  assumes "Request.Method r = ''POST''" and "Decode_JSONRPCRequest (Body r) = Inl err"
  shows "handleMCPRequest s r =
    (s, \<lparr>status = 200,
         body = [Encoded \<lparr>JSONRPCResponse.JsonRPC = ''2.0'', ID = JNull, Result = None,
                   Error = Some \<lparr>Code = - 32700, Message = ''Parse error: Invalid JSON'', Data = None\<rparr>\<rparr>]\<rparr>)"
  using assms by (simp add: handleMCPRequest_def)

text \<open>
  On the wire a nil identifier is left out (\<^verbatim>\<open>omitempty\<close>): the answer to a body
  that does not decode has no member \<^verbatim>\<open>id\<close>.
\<close>

lemma parse_error_on_the_wire:
  "encode_JSONRPCResponse errorText
     \<lparr>JSONRPCResponse.JsonRPC = ''2.0'', ID = JNull, Result = None,
      Error = Some \<lparr>Code = - 32700, Message = ''Parse error: Invalid JSON'', Data = None\<rparr>\<rparr> =
   JObject [(''jsonrpc'', JString ''2.0''),
            (''error'', JObject [(''code'', JNumber (- 32700)),
                                (''message'', JString ''Parse error: Invalid JSON'')])]"
  by (simp add: encode_JSONRPCResponse_def encode_RPCError_def)

text \<open>The answers of the scenarios of the specification, as they are written.\<close>

lemma ping_on_the_wire:
  "handleMCPRequest s
     \<lparr>Request.Method = ''POST'',
      Body = Some (JObject [(''jsonrpc'', JString ''2.0''), (''id'', JNumber 1),
                           (''method'', JString ''ping'')])\<rparr> =
   (s, \<lparr>status = 200,
        body = [Encoded \<lparr>JSONRPCResponse.JsonRPC = ''2.0'', ID = JNumber 1,
                  Result = Some EmptyStringMap, Error = None\<rparr>]\<rparr>) \<and>
   encode_JSONRPCResponse errorText
     \<lparr>JSONRPCResponse.JsonRPC = ''2.0'', ID = JNumber 1, Result = Some EmptyStringMap, Error = None\<rparr> =
   JObject [(''jsonrpc'', JString ''2.0''), (''id'', JNumber 1), (''result'', JObject [])]"
  by (simp add: handleMCPRequest_def eval_defs handleRequest_def encode_JSONRPCResponse_def)

lemma tools_list_on_the_wire:
  "encode_JSONRPCResponse errorText (snd (handleRequest \<lparr>initialized = True\<rparr>
     \<lparr>JSONRPCRequest.JsonRPC = ''2.0'', ID = JNumber 4, Method = ''tools/list'', Params = None\<rparr>)) =
   JObject [(''jsonrpc'', JString ''2.0''), (''id'', JNumber 4),
     (''result'', JObject [(''tools'', JArray [JObject
        [(''name'', JString ''list_indian_stores''),
         (''description'', JString ''List popular Indian online stores with their services''),
         (''inputSchema'', JObject [(''type'', JString ''object'')])]])])]"
  by (simp add: handleRequest_def handleToolsList_def encode_JSONRPCResponse_def encode_Tool_def
      encode_InputSchema_def)

lemma initialize_on_the_wire:
  "encode_JSONRPCResponse errorText (snd (handleRequest NewMCPServer
     \<lparr>JSONRPCRequest.JsonRPC = ''2.0'', ID = JNumber 3, Method = ''initialize'',
      Params = Some (JObject [])\<rparr>)) =
   JObject [(''jsonrpc'', JString ''2.0''), (''id'', JNumber 3),
     (''result'', JObject
        [(''protocolVersion'', JString ''2024-11-05''),
         (''capabilities'', JObject [(''tools'', JObject [])]),
         (''serverInfo'', JObject [(''name'', JString ''indian-store-mcp-server''),
                                  (''version'', JString ''1.0.0'')])])]"
  by (simp add: handleRequest_def handleInitialize_def initializeResult_def eval_defs
      encode_JSONRPCResponse_def encode_ServerCapabilities_def)

section \<open>The claims\<close>

text \<open>
  C1: tools/list and tools/call invoked before any successful initialize return the error
  -32002 without running their handler, and never return it after a successful initialize.
  main.go and the first of the two other servers do so (\<open>handleRequest_gate_closed\<close>,
  \<open>handleRequest_gate_open\<close>, \<open>serve_gate_open\<close> and their \<open>_v2\<close> forms). The
  dispatcher of the second of the two other servers never reads the flag: on a new server,
  before any initialize, tools/list returns the list of tools and tools/call the result of
  the tool, with no error.
\<close>

theorem handleRequest_v3_not_gated:
  "\<not> initialized NewMCPServer \<and>
   handleRequest_v3 NewMCPServer
     \<lparr>JSONRPCRequest.JsonRPC = ''2.0'', ID = JNumber 2, Method = ''tools/list'', Params = None\<rparr> =
   (NewMCPServer,
    \<lparr>JSONRPCResponse.JsonRPC = ''2.0'', ID = JNumber 2, Result = Some toolsListResult_v2, Error = None\<rparr>) \<and>
   handleRequest_v3 NewMCPServer
     \<lparr>JSONRPCRequest.JsonRPC = ''2.0'', ID = JNumber 5, Method = ''tools/call'',
      Params = Some (JObject [(''name'', JString ''list_indian_stores'')])\<rparr> =
   (NewMCPServer,
    \<lparr>JSONRPCResponse.JsonRPC = ''2.0'', ID = JNumber 5, Result = Some callToolResult_v2, Error = None\<rparr>)"
  by (simp add: handleRequest_v3_def NewMCPServer_def)

text \<open>
  C2: the response to a request that decodes carries the identifier of the request, and the
  response to a body that does not decode carries the nil identifier. Both hold
  (\<open>handleRequest_echoes_ID\<close>, \<open>handleMCPRequest_parse_error\<close>) except for the
  notification: the body
  \<^verbatim>\<open>{"jsonrpc":"2.0","id":7,"method":"notifications/initialized"}\<close> decodes to a
  request with the identifier 7, and the response written for it is the value with every
  field zero, whose identifier is nil.
\<close>

theorem notification_loses_identifier:
  "Decode_JSONRPCRequest
     (Some (JObject [(''jsonrpc'', JString ''2.0''), (''id'', JNumber 7),
                     (''method'', JString ''notifications/initialized'')])) =
   Inr \<lparr>JSONRPCRequest.JsonRPC = ''2.0'', ID = JNumber 7, Method = ''notifications/initialized'',
        Params = None\<rparr> \<and>
   handleMCPRequest s
     \<lparr>Request.Method = ''POST'',
      Body = Some (JObject [(''jsonrpc'', JString ''2.0''), (''id'', JNumber 7),
                           (''method'', JString ''notifications/initialized'')])\<rparr> =
   (s, \<lparr>status = 200,
        body = [Encoded \<lparr>JSONRPCResponse.JsonRPC = [], ID = JNull, Result = None, Error = None\<rparr>]\<rparr>)"
  by (simp add: handleMCPRequest_def eval_defs handleRequest_def noResponse_def)

text \<open>
  C3: nothing is written for the method notifications/initialized. The handler writes for
  it what it writes for every request that decodes, the encoding of what the dispatcher
  returned: here of the value with every field zero, which is the text
  \<^verbatim>\<open>{"jsonrpc":""}\<close>, in every state of the server.
\<close>

theorem notification_is_answered:
  "handleMCPRequest s
     \<lparr>Request.Method = ''POST'',
      Body = Some (JObject [(''jsonrpc'', JString ''2.0''),
                           (''method'', JString ''notifications/initialized'')])\<rparr> =
   (s, \<lparr>status = 200, body = [Encoded noResponse]\<rparr>) \<and>
   encode_JSONRPCResponse errorText noResponse = JObject [(''jsonrpc'', JString [])]"
  by (simp add: handleMCPRequest_def eval_defs handleRequest_def encode_JSONRPCResponse_def
      noResponse_def)

text \<open>
  C4: initialize calls with valid parameters are idempotent. A server in any state that
  handles one or more initialize requests whose parameters decode ends ready, and answers
  each of them with the same fixed result and no error; so a second call neither resets
  the flag nor fails.
\<close>

theorem initialize_idempotent:
  assumes "reqs \<noteq> []"
    and "\<forall>req\<in>set reqs. JSONRPCRequest.Method req = ''initialize'' \<and>
           \<not> isl (Unmarshal_InitializeParams (Params req))"
  shows "initialized (fst (serve s reqs)) \<and>
    snd (serve s reqs) =
      map (\<lambda>req. \<lparr>JSONRPCResponse.JsonRPC = ''2.0'', ID = JSONRPCRequest.ID req,
                  Result = Some (ResInitialize initializeResult), Error = None\<rparr>) reqs"
proof
  from assms(1) obtain req rest where reqs: "reqs = req # rest"
    by (cases reqs) auto
  with assms(2) have "handleRequest s req = (s\<lparr>initialized := True\<rparr>,
      \<lparr>JSONRPCResponse.JsonRPC = ''2.0'', ID = JSONRPCRequest.ID req,
       Result = Some (ResInitialize initializeResult), Error = None\<rparr>)"
    by (intro handleRequest_initialize_accepted) auto
  then have "initialized (fst (handleRequest s req))" by simp
  then have "initialized (fst (serve (fst (handleRequest s req)) rest))"
    by (rule serve_keeps_initialized)
  then show "initialized (fst (serve s reqs))"
    by (simp only: reqs fst_serve_Cons)
next
  from assms(2) show "snd (serve s reqs) =
      map (\<lambda>req. \<lparr>JSONRPCResponse.JsonRPC = ''2.0'', ID = JSONRPCRequest.ID req,
                  Result = Some (ResInitialize initializeResult), Error = None\<rparr>) reqs"
  proof (induction reqs arbitrary: s)
    case Nil
    show ?case by simp
  next
    case (Cons req reqs)
    from Cons.prems have "handleRequest s req = (s\<lparr>initialized := True\<rparr>,
      \<lparr>JSONRPCResponse.JsonRPC = ''2.0'', ID = JSONRPCRequest.ID req,
       Result = Some (ResInitialize initializeResult), Error = None\<rparr>)"
      by (intro handleRequest_initialize_accepted) auto
    moreover from Cons.prems have "snd (serve (s\<lparr>initialized := True\<rparr>) reqs) =
      map (\<lambda>req. \<lparr>JSONRPCResponse.JsonRPC = ''2.0'', ID = JSONRPCRequest.ID req,
                  Result = Some (ResInitialize initializeResult), Error = None\<rparr>) reqs"
      by (intro Cons.IH) auto
    ultimately show ?case by (simp add: snd_serve_Cons del: serve.simps)
  qed
qed

text \<open>
  A new server that is sent \<^verbatim>\<open>initialize\<close> with the parameters \<^verbatim>\<open>{}\<close> and then
  again with a full set of parameters.
\<close>

theorem initialize_idempotent_witness:
  "initialized (fst (serve NewMCPServer
     [\<lparr>JSONRPCRequest.JsonRPC = ''2.0'', ID = JNumber 3, Method = ''initialize'', Params = Some (JObject [])\<rparr>,
      \<lparr>JSONRPCRequest.JsonRPC = ''2.0'', ID = JString ''again'', Method = ''initialize'',
       Params = Some (JObject [(''protocolVersion'', JString ''2025-06-18''),
                              (''capabilities'', JObject [(''sampling'', JObject [])]),
                              (''clientInfo'', JObject [(''name'', JString ''client''),
                                                       (''version'', JString ''0.1'')])])\<rparr>])) \<and>
   snd (serve NewMCPServer
     [\<lparr>JSONRPCRequest.JsonRPC = ''2.0'', ID = JNumber 3, Method = ''initialize'', Params = Some (JObject [])\<rparr>,
      \<lparr>JSONRPCRequest.JsonRPC = ''2.0'', ID = JString ''again'', Method = ''initialize'',
       Params = Some (JObject [(''protocolVersion'', JString ''2025-06-18''),
                              (''capabilities'', JObject [(''sampling'', JObject [])]),
                              (''clientInfo'', JObject [(''name'', JString ''client''),
                                                       (''version'', JString ''0.1'')])])\<rparr>]) =
   [\<lparr>JSONRPCResponse.JsonRPC = ''2.0'', ID = JNumber 3,
     Result = Some (ResInitialize initializeResult), Error = None\<rparr>,
    \<lparr>JSONRPCResponse.JsonRPC = ''2.0'', ID = JString ''again'',
     Result = Some (ResInitialize initializeResult), Error = None\<rparr>]"
proof -
  let ?reqs = "[\<lparr>JSONRPCRequest.JsonRPC = ''2.0'', ID = JNumber 3, Method = ''initialize'', Params = Some (JObject [])\<rparr>,
      \<lparr>JSONRPCRequest.JsonRPC = ''2.0'', ID = JString ''again'', Method = ''initialize'',
       Params = Some (JObject [(''protocolVersion'', JString ''2025-06-18''),
                              (''capabilities'', JObject [(''sampling'', JObject [])]),
                              (''clientInfo'', JObject [(''name'', JString ''client''),
                                                       (''version'', JString ''0.1'')])])\<rparr>]"
  have nonempty: "?reqs \<noteq> []" by simp
  have valid: "\<forall>req\<in>set ?reqs. JSONRPCRequest.Method req = ''initialize'' \<and>
      \<not> isl (Unmarshal_InitializeParams (Params req))"
    by (simp add: eval_defs)
  from initialize_idempotent [OF nonempty valid, of NewMCPServer] show ?thesis
    by simp
qed

text \<open>
  C5: for every initialize request whose parameters decode, the response is fixed whatever
  the client sent: the protocol version 2024-11-05, the capability tools with listChanged
  false, and the name and version of the server.
\<close>

theorem initialize_result_fixed:
  assumes "JSONRPCRequest.Method req = ''initialize''"
    and "Unmarshal_InitializeParams (Params req) = Inr initParams"
  shows "snd (handleRequest s req) =
    \<lparr>JSONRPCResponse.JsonRPC = ''2.0'',
     ID = JSONRPCRequest.ID req,
     Result = Some (ResInitialize
       \<lparr>InitializeResult.ProtocolVersion = ''2024-11-05'',
        Capabilities = \<lparr>ServerCapabilities.Tools = Some \<lparr>ListChanged = False\<rparr>, Experimental = None\<rparr>,
        ServerInfo = \<lparr>ServerInfo.Name = ''indian-store-mcp-server'', Version = ''1.0.0''\<rparr>\<rparr>),
     Error = None\<rparr>"
  using assms by (simp add: handleRequest_def handleInitialize_def initializeResult_def)

text \<open>A client that asks for another protocol version and names itself.\<close>

theorem initialize_result_fixed_witness:
  "snd (handleRequest NewMCPServer
     \<lparr>JSONRPCRequest.JsonRPC = ''2.0'', ID = JNumber 3, Method = ''initialize'',
      Params = Some (JObject [(''protocolVersion'', JString ''1999-12-31''),
                             (''clientInfo'', JObject [(''name'', JString ''c''), (''version'', JString ''9'')])])\<rparr>) =
   \<lparr>JSONRPCResponse.JsonRPC = ''2.0'',
    ID = JNumber 3,
    Result = Some (ResInitialize
      \<lparr>InitializeResult.ProtocolVersion = ''2024-11-05'',
       Capabilities = \<lparr>ServerCapabilities.Tools = Some \<lparr>ListChanged = False\<rparr>, Experimental = None\<rparr>,
       ServerInfo = \<lparr>ServerInfo.Name = ''indian-store-mcp-server'', Version = ''1.0.0''\<rparr>\<rparr>),
    Error = None\<rparr>"
proof -
  let ?req = "\<lparr>JSONRPCRequest.JsonRPC = ''2.0'', ID = JNumber 3, Method = ''initialize'',
      Params = Some (JObject [(''protocolVersion'', JString ''1999-12-31''),
                             (''clientInfo'', JObject [(''name'', JString ''c''), (''version'', JString ''9'')])])\<rparr>"
  have routed: "JSONRPCRequest.Method ?req = ''initialize''" by simp
  have decoded: "Unmarshal_InitializeParams (Params ?req) =
      Inr \<lparr>InitializeParams.ProtocolVersion = ''1999-12-31'',
           Capabilities = \<lparr>ClientCapabilities.Experimental = None, Sampling = None\<rparr>,
           ClientInfo = \<lparr>ClientInfo.Name = ''c'', Version = ''9''\<rparr>\<rparr>"
    by (simp add: eval_defs)
  from initialize_result_fixed [OF routed decoded, of NewMCPServer] show ?thesis
    by simp
qed

text \<open>
  C6: a method that is none of the five routed ones is answered with the error -32601 and
  the method name as data; a tools/call whose decoded tool name is not list_indian_stores is
  answered with the error -32601 ``Unknown tool'' and the requested name as data, by the
  handler and, once the server is ready, through the dispatcher. The server is left as it
  was in each case.
\<close>

theorem not_found_errors:
  "(JSONRPCRequest.Method req \<noteq> ''initialize'' \<and>
    JSONRPCRequest.Method req \<noteq> ''notifications/initialized'' \<and>
    JSONRPCRequest.Method req \<noteq> ''tools/list'' \<and>
    JSONRPCRequest.Method req \<noteq> ''tools/call'' \<and>
    JSONRPCRequest.Method req \<noteq> ''ping'' \<longrightarrow>
    handleRequest s req =
      (s, \<lparr>JSONRPCResponse.JsonRPC = ''2.0'', ID = JSONRPCRequest.ID req, Result = None,
           Error = Some \<lparr>Code = - 32601, Message = ''Method not found'',
                         Data = Some (Str (JSONRPCRequest.Method req))\<rparr>\<rparr>)) \<and>
   (Unmarshal_CallToolParams params = Inr callParams \<and>
    CallToolParams.Name callParams \<noteq> ''list_indian_stores'' \<longrightarrow>
    handleCallTool s id' params =
      (s, \<lparr>JSONRPCResponse.JsonRPC = ''2.0'', ID = id', Result = None,
           Error = Some \<lparr>Code = - 32601, Message = ''Unknown tool'',
                         Data = Some (Str (CallToolParams.Name callParams))\<rparr>\<rparr>)) \<and>
   (initialized s \<and> JSONRPCRequest.Method req = ''tools/call'' \<and>
    Unmarshal_CallToolParams (Params req) = Inr callParams \<and>
    CallToolParams.Name callParams \<noteq> ''list_indian_stores'' \<longrightarrow>
    handleRequest s req =
      (s, \<lparr>JSONRPCResponse.JsonRPC = ''2.0'', ID = JSONRPCRequest.ID req, Result = None,
           Error = Some \<lparr>Code = - 32601, Message = ''Unknown tool'',
                         Data = Some (Str (CallToolParams.Name callParams))\<rparr>\<rparr>))"
  by (simp add: handleRequest_def handleCallTool_def sendError_def)

text \<open>
  The method \<^verbatim>\<open>resources/list\<close> on a new server, and the tool \<^verbatim>\<open>bogus\<close> called on a
  ready server.
\<close>

theorem not_found_errors_witness:
  "handleRequest NewMCPServer
     \<lparr>JSONRPCRequest.JsonRPC = ''2.0'', ID = JNumber 8, Method = ''resources/list'', Params = None\<rparr> =
   (NewMCPServer,
    \<lparr>JSONRPCResponse.JsonRPC = ''2.0'', ID = JNumber 8, Result = None,
     Error = Some \<lparr>Code = - 32601, Message = ''Method not found'', Data = Some (Str ''resources/list'')\<rparr>\<rparr>) \<and>
   handleCallTool \<lparr>initialized = True\<rparr> (JNumber 6) (Some (JObject [(''name'', JString ''bogus'')])) =
   (\<lparr>initialized = True\<rparr>,
    \<lparr>JSONRPCResponse.JsonRPC = ''2.0'', ID = JNumber 6, Result = None,
     Error = Some \<lparr>Code = - 32601, Message = ''Unknown tool'', Data = Some (Str ''bogus'')\<rparr>\<rparr>) \<and>
   handleRequest \<lparr>initialized = True\<rparr>
     \<lparr>JSONRPCRequest.JsonRPC = ''2.0'', ID = JNumber 6, Method = ''tools/call'',
      Params = Some (JObject [(''name'', JString ''bogus'')])\<rparr> =
   (\<lparr>initialized = True\<rparr>,
    \<lparr>JSONRPCResponse.JsonRPC = ''2.0'', ID = JNumber 6, Result = None,
     Error = Some \<lparr>Code = - 32601, Message = ''Unknown tool'', Data = Some (Str ''bogus'')\<rparr>\<rparr>)"
proof -
  have decoded: "Unmarshal_CallToolParams (Some (JObject [(''name'', JString ''bogus'')])) =
      Inr \<lparr>CallToolParams.Name = ''bogus'', Arguments = None\<rparr>"
    by (simp add: eval_defs)
  from decoded
    not_found_errors [where s = NewMCPServer and params = None
      and req = "\<lparr>JSONRPCRequest.JsonRPC = ''2.0'', ID = JNumber 8, Method = ''resources/list'', Params = None\<rparr>"]
    not_found_errors [where s = "\<lparr>initialized = True\<rparr>" and id' = "JNumber 6"
      and params = "Some (JObject [(''name'', JString ''bogus'')])"
      and callParams = "\<lparr>CallToolParams.Name = ''bogus'', Arguments = None\<rparr>"
      and req = "\<lparr>JSONRPCRequest.JsonRPC = ''2.0'', ID = JNumber 6, Method = ''tools/call'',
        Params = Some (JObject [(''name'', JString ''bogus'')])\<rparr>"]
  show ?thesis
    by (simp add: NewMCPServer_def)
qed

text \<open>
  The parameters \<^verbatim>\<open>{"name": n, "arguments": a}\<close> decode exactly when the arguments
  do: \<open>a\<close> is null or an object whose numbers are all in the range of \<^verbatim>\<open>float64\<close>.
\<close>

lemma Unmarshal_CallToolParams_name_arguments:
  "Unmarshal_CallToolParams (Some (JObject [(''name'', JString n), (''arguments'', a)])) =
     (case storeMap a None of
        Inl e \<Rightarrow> Inl e
      | Inr m \<Rightarrow> Inr \<lparr>CallToolParams.Name = n, Arguments = m\<rparr>)"
  by (simp add: Unmarshal_CallToolParams_def storeStruct_def field_CallToolParams_def storeString_def
      upperASCII_def char_of_eq_iff split: sum.splits)

lemma Unmarshal_CallToolParams_fitting_arguments:
  assumes "fitsMap a"
  shows "\<exists>m. Unmarshal_CallToolParams (Some (JObject [(''name'', JString n), (''arguments'', a)])) =
    Inr \<lparr>CallToolParams.Name = n, Arguments = m\<rparr>"
proof -
  from assms have "\<not> isl (storeMap a None)"
    by (simp add: storeMap_isl)
  then obtain m where "storeMap a None = Inr m"
    by (cases "storeMap a None") auto
  then show ?thesis
    by (simp add: Unmarshal_CallToolParams_name_arguments)
qed

lemma Unmarshal_CallToolParams_misfitting_arguments:
  assumes "\<not> fitsMap a"
  shows "Unmarshal_CallToolParams (Some (JObject [(''name'', JString n), (''arguments'', a)])) =
    Inl UnmarshalTypeError"
proof -
  from assms have "isl (storeMap a None)"
    by (simp add: storeMap_isl)
  then obtain e where e: "storeMap a None = Inl e"
    by (cases "storeMap a None") auto
  then have "e = UnmarshalTypeError"
    by (rule storeMap_error)
  with e show ?thesis
    by (simp add: Unmarshal_CallToolParams_name_arguments)
qed

text \<open>
  C7, as the claim states it: for the tool list_indian_stores any two invocations, with
  any argument mappings, return the identical result, the text block with the store list.
  It fails on an argument mapping that holds a number outside the range of
  \<^verbatim>\<open>float64\<close>: the parameters
  \<^verbatim>\<open>{"name":"list_indian_stores","arguments":{"n":1e400}}\<close> do not decode and the
  handler answers with the error -32602 and no result, where the same call with the
  arguments \<^verbatim>\<open>{"n":1}\<close> returns the store list.
\<close>

theorem list_indian_stores_rejects_huge_number:
  "handleCallTool \<lparr>initialized = True\<rparr> (JNumber 5)
     (Some (JObject [(''name'', JString ''list_indian_stores''),
                     (''arguments'', JObject [(''n'', JNumber (10 ^ 400))])])) =
   (\<lparr>initialized = True\<rparr>,
    \<lparr>JSONRPCResponse.JsonRPC = ''2.0'', ID = JNumber 5, Result = None,
     Error = Some \<lparr>Code = - 32602, Message = ''Invalid params'',
                   Data = Some (ErrorText UnmarshalTypeError)\<rparr>\<rparr>) \<and>
   handleCallTool \<lparr>initialized = True\<rparr> (JNumber 5)
     (Some (JObject [(''name'', JString ''list_indian_stores''),
                     (''arguments'', JObject [(''n'', JNumber 1)])])) =
   (\<lparr>initialized = True\<rparr>,
    \<lparr>JSONRPCResponse.JsonRPC = ''2.0'', ID = JNumber 5,
     Result = Some (ResCallTool
       \<lparr>Content = [\<lparr>Content.Type = ''text'',
          Text =
            ''1. Flipkart - E-commerce platform offering electronics, fashion, home essentials\<newline>'' @
            ''2. Amazon India - Global e-commerce platform with wide product range\<newline>'' @
            ''3. Reliance Digital - Electronics and appliances retailer\<newline>'' @
            ''4. Myntra - Fashion and lifestyle e-commerce platform\<newline>'' @
            ''5. Snapdeal - E-commerce platform with various product categories\<newline>'' @
            ''6. Tata CLiQ - Digital commerce platform by Tata Group''\<rparr>],
        IsError = False\<rparr>),
     Error = None\<rparr>)"
  by (simp add: handleCallTool_def sendError_def storeListText_def eval_defs)

text \<open>
  C7, amended: the tools/call handler is a function of its parameters alone, and for the
  tool list_indian_stores any two invocations whose parameters decode, whatever their
  arguments, identifiers and server states, return the identical result: a single text
  block holding the fixed store list, no error, the server left as it was. The parameters
  \<^verbatim>\<open>{"name":"list_indian_stores","arguments":A}\<close> decode exactly when \<open>A\<close> is null
  or an object whose numbers are all in the range of \<^verbatim>\<open>float64\<close>; otherwise the
  answer is the error -32602 and the server is left as it was. The handler of the first of
  the two other servers returns its own fixed block for every invocation.
\<close>

theorem list_indian_stores_result_fixed:
  "(Unmarshal_CallToolParams params = Inr callParams \<and>
    CallToolParams.Name callParams = ''list_indian_stores'' \<and>
    Unmarshal_CallToolParams params' = Inr callParams' \<and>
    CallToolParams.Name callParams' = ''list_indian_stores'' \<longrightarrow>
    handleCallTool s id' params =
      (s, \<lparr>JSONRPCResponse.JsonRPC = ''2.0'', ID = id',
            Result = Some (ResCallTool
              \<lparr>Content = [\<lparr>Content.Type = ''text'',
                 Text =
                   ''1. Flipkart - E-commerce platform offering electronics, fashion, home essentials\<newline>'' @
                   ''2. Amazon India - Global e-commerce platform with wide product range\<newline>'' @
                   ''3. Reliance Digital - Electronics and appliances retailer\<newline>'' @
                   ''4. Myntra - Fashion and lifestyle e-commerce platform\<newline>'' @
                   ''5. Snapdeal - E-commerce platform with various product categories\<newline>'' @
                   ''6. Tata CLiQ - Digital commerce platform by Tata Group''\<rparr>],
               IsError = False\<rparr>),
            Error = None\<rparr>) \<and>
    Result (snd (handleCallTool s id' params)) = Result (snd (handleCallTool s' id'' params'))) \<and>
   snd (handleCallTool s id' params) = snd (handleCallTool s' id' params) \<and>
   fst (handleCallTool s id' params) = s \<and>
   (fitsMap arguments \<longrightarrow>
    handleCallTool s id'
      (Some (JObject [(''name'', JString ''list_indian_stores''), (''arguments'', arguments)])) =
      (s, \<lparr>JSONRPCResponse.JsonRPC = ''2.0'', ID = id',
            Result = Some (ResCallTool
              \<lparr>Content = [\<lparr>Content.Type = ''text'',
                 Text =
                   ''1. Flipkart - E-commerce platform offering electronics, fashion, home essentials\<newline>'' @
                   ''2. Amazon India - Global e-commerce platform with wide product range\<newline>'' @
                   ''3. Reliance Digital - Electronics and appliances retailer\<newline>'' @
                   ''4. Myntra - Fashion and lifestyle e-commerce platform\<newline>'' @
                   ''5. Snapdeal - E-commerce platform with various product categories\<newline>'' @
                   ''6. Tata CLiQ - Digital commerce platform by Tata Group''\<rparr>],
               IsError = False\<rparr>),
            Error = None\<rparr>)) \<and>
   (\<not> fitsMap arguments \<longrightarrow>
    handleCallTool s id'
      (Some (JObject [(''name'', JString ''list_indian_stores''), (''arguments'', arguments)])) =
      (s, \<lparr>JSONRPCResponse.JsonRPC = ''2.0'', ID = id', Result = None,
            Error = Some \<lparr>Code = - 32602, Message = ''Invalid params'',
                          Data = Some (ErrorText UnmarshalTypeError)\<rparr>\<rparr>)) \<and>
   handleCallTool_v2 s id' params =
     (s, \<lparr>JSONRPCResponse.JsonRPC = ''2.0'', ID = id',
           Result = Some (ResCallTool
             \<lparr>Content = [\<lparr>Content.Type = ''text'',
                Text = ''Flipkart, Amazon India, Reliance Digital, Myntra, Snapdeal, Tata CLiQ''\<rparr>],
              IsError = False\<rparr>),
           Error = None\<rparr>) \<and>
   Result (snd (handleCallTool_v2 s id' params)) = Result (snd (handleCallTool_v2 s' id'' params'))"
proof (intro conjI impI)
  assume "Unmarshal_CallToolParams params = Inr callParams \<and>
    CallToolParams.Name callParams = ''list_indian_stores'' \<and>
    Unmarshal_CallToolParams params' = Inr callParams' \<and>
    CallToolParams.Name callParams' = ''list_indian_stores''"
  then show "Result (snd (handleCallTool s id' params)) = Result (snd (handleCallTool s' id'' params'))"
    by (simp add: handleCallTool_def)
next
  show "snd (handleCallTool s id' params) = snd (handleCallTool s' id' params)"
    by (simp add: handleCallTool_def split: sum.splits)
next
  show "fst (handleCallTool s id' params) = s"
    by (simp add: handleCallTool_def split: sum.splits)
next
  assume "fitsMap arguments"
  then obtain m where "Unmarshal_CallToolParams
      (Some (JObject [(''name'', JString ''list_indian_stores''), (''arguments'', arguments)])) =
      Inr \<lparr>CallToolParams.Name = ''list_indian_stores'', Arguments = m\<rparr>"
    using Unmarshal_CallToolParams_fitting_arguments by blast
  then show "handleCallTool s id'
      (Some (JObject [(''name'', JString ''list_indian_stores''), (''arguments'', arguments)])) =
      (s, \<lparr>JSONRPCResponse.JsonRPC = ''2.0'', ID = id',
            Result = Some (ResCallTool
              \<lparr>Content = [\<lparr>Content.Type = ''text'',
                 Text =
                   ''1. Flipkart - E-commerce platform offering electronics, fashion, home essentials\<newline>'' @
                   ''2. Amazon India - Global e-commerce platform with wide product range\<newline>'' @
                   ''3. Reliance Digital - Electronics and appliances retailer\<newline>'' @
                   ''4. Myntra - Fashion and lifestyle e-commerce platform\<newline>'' @
                   ''5. Snapdeal - E-commerce platform with various product categories\<newline>'' @
                   ''6. Tata CLiQ - Digital commerce platform by Tata Group''\<rparr>],
               IsError = False\<rparr>),
            Error = None\<rparr>)"
    by (simp add: handleCallTool_def storeListText_def)
next
  assume "\<not> fitsMap arguments"
  then have "Unmarshal_CallToolParams
      (Some (JObject [(''name'', JString ''list_indian_stores''), (''arguments'', arguments)])) =
      Inl UnmarshalTypeError"
    by (rule Unmarshal_CallToolParams_misfitting_arguments)
  then show "handleCallTool s id'
      (Some (JObject [(''name'', JString ''list_indian_stores''), (''arguments'', arguments)])) =
      (s, \<lparr>JSONRPCResponse.JsonRPC = ''2.0'', ID = id', Result = None,
            Error = Some \<lparr>Code = - 32602, Message = ''Invalid params'',
                          Data = Some (ErrorText UnmarshalTypeError)\<rparr>\<rparr>)"
    by (simp add: handleCallTool_def sendError_def)
qed (simp_all add: handleCallTool_def handleCallTool_v2_def callToolResult_v2_def storeListText_def)

text \<open>
  A call without arguments on a ready server and a call with arguments on a server that is
  not ready; then the arguments \<^verbatim>\<open>{"city":"Pune","limit":2}\<close>, which decode, and
  \<^verbatim>\<open>{"n":1e400}\<close>, which do not.
\<close>

theorem list_indian_stores_result_fixed_witness:
  "handleCallTool \<lparr>initialized = True\<rparr> (JNumber 5)
     (Some (JObject [(''name'', JString ''list_indian_stores'')])) =
   (\<lparr>initialized = True\<rparr>,
    \<lparr>JSONRPCResponse.JsonRPC = ''2.0'', ID = JNumber 5,
     Result = Some (ResCallTool
       \<lparr>Content = [\<lparr>Content.Type = ''text'',
          Text =
            ''1. Flipkart - E-commerce platform offering electronics, fashion, home essentials\<newline>'' @
            ''2. Amazon India - Global e-commerce platform with wide product range\<newline>'' @
            ''3. Reliance Digital - Electronics and appliances retailer\<newline>'' @
            ''4. Myntra - Fashion and lifestyle e-commerce platform\<newline>'' @
            ''5. Snapdeal - E-commerce platform with various product categories\<newline>'' @
            ''6. Tata CLiQ - Digital commerce platform by Tata Group''\<rparr>],
        IsError = False\<rparr>),
     Error = None\<rparr>) \<and>
   Result (snd (handleCallTool \<lparr>initialized = True\<rparr> (JNumber 5)
     (Some (JObject [(''name'', JString ''list_indian_stores'')])))) =
   Result (snd (handleCallTool \<lparr>initialized = False\<rparr> (JString ''x'')
     (Some (JObject [(''name'', JString ''list_indian_stores''),
                     (''arguments'', JObject [(''city'', JString ''Pune''), (''limit'', JNumber 2)])])))) \<and>
   handleCallTool \<lparr>initialized = True\<rparr> (JNumber 6)
     (Some (JObject [(''name'', JString ''list_indian_stores''),
                     (''arguments'', JObject [(''city'', JString ''Pune''), (''limit'', JNumber 2)])])) =
   (\<lparr>initialized = True\<rparr>,
    \<lparr>JSONRPCResponse.JsonRPC = ''2.0'', ID = JNumber 6,
     Result = Some (ResCallTool
       \<lparr>Content = [\<lparr>Content.Type = ''text'',
          Text =
            ''1. Flipkart - E-commerce platform offering electronics, fashion, home essentials\<newline>'' @
            ''2. Amazon India - Global e-commerce platform with wide product range\<newline>'' @
            ''3. Reliance Digital - Electronics and appliances retailer\<newline>'' @
            ''4. Myntra - Fashion and lifestyle e-commerce platform\<newline>'' @
            ''5. Snapdeal - E-commerce platform with various product categories\<newline>'' @
            ''6. Tata CLiQ - Digital commerce platform by Tata Group''\<rparr>],
        IsError = False\<rparr>),
     Error = None\<rparr>) \<and>
   handleCallTool \<lparr>initialized = True\<rparr> (JNumber 7)
     (Some (JObject [(''name'', JString ''list_indian_stores''),
                     (''arguments'', JObject [(''n'', JNumber (10 ^ 400))])])) =
   (\<lparr>initialized = True\<rparr>,
    \<lparr>JSONRPCResponse.JsonRPC = ''2.0'', ID = JNumber 7, Result = None,
     Error = Some \<lparr>Code = - 32602, Message = ''Invalid params'',
                   Data = Some (ErrorText UnmarshalTypeError)\<rparr>\<rparr>)"
proof -
  have decoded1: "Unmarshal_CallToolParams (Some (JObject [(''name'', JString ''list_indian_stores'')])) =
      Inr \<lparr>CallToolParams.Name = ''list_indian_stores'', Arguments = None\<rparr>"
    by (simp add: eval_defs)
  have decoded2: "Unmarshal_CallToolParams
      (Some (JObject [(''name'', JString ''list_indian_stores''),
                      (''arguments'', JObject [(''city'', JString ''Pune''), (''limit'', JNumber 2)])])) =
      Inr \<lparr>CallToolParams.Name = ''list_indian_stores'',
           Arguments = Some [(''city'', JString ''Pune''), (''limit'', JNumber 2)]\<rparr>"
    by (simp add: eval_defs)
  have fits: "fitsMap (JObject [(''city'', JString ''Pune''), (''limit'', JNumber 2)])"
    by (simp add: fitsMap_def inFloat64Range_def)
  have misfit: "\<not> fitsMap (JObject [(''n'', JNumber (10 ^ 400))])"
    by (simp add: fitsMap_def inFloat64Range_def)
  have name1: "CallToolParams.Name \<lparr>CallToolParams.Name = ''list_indian_stores'', Arguments = None\<rparr> =
      ''list_indian_stores''"
    by simp
  have name2: "CallToolParams.Name \<lparr>CallToolParams.Name = ''list_indian_stores'',
      Arguments = Some [(''city'', JString ''Pune''), (''limit'', JNumber 2)]\<rparr> = ''list_indian_stores''"
    by simp
  note two_calls =
    list_indian_stores_result_fixed [where s = "\<lparr>initialized = True\<rparr>" and id' = "JNumber 5"
      and s' = "\<lparr>initialized = False\<rparr>" and id'' = "JString ''x''"
      and params = "Some (JObject [(''name'', JString ''list_indian_stores'')])"
      and callParams = "\<lparr>CallToolParams.Name = ''list_indian_stores'', Arguments = None\<rparr>"
      and params' = "Some (JObject [(''name'', JString ''list_indian_stores''),
        (''arguments'', JObject [(''city'', JString ''Pune''), (''limit'', JNumber 2)])])"
      and callParams' = "\<lparr>CallToolParams.Name = ''list_indian_stores'',
        Arguments = Some [(''city'', JString ''Pune''), (''limit'', JNumber 2)]\<rparr>"
      and arguments = JNull]
  note accepted =
    list_indian_stores_result_fixed [where s = "\<lparr>initialized = True\<rparr>" and id' = "JNumber 6"
      and arguments = "JObject [(''city'', JString ''Pune''), (''limit'', JNumber 2)]"]
  note refused =
    list_indian_stores_result_fixed [where s = "\<lparr>initialized = True\<rparr>" and id' = "JNumber 7"
      and arguments = "JObject [(''n'', JNumber (10 ^ 400))]"]
  from two_calls decoded1 name1 decoded2 name2 have
    "handleCallTool \<lparr>initialized = True\<rparr> (JNumber 5)
       (Some (JObject [(''name'', JString ''list_indian_stores'')])) =
     (\<lparr>initialized = True\<rparr>,
      \<lparr>JSONRPCResponse.JsonRPC = ''2.0'', ID = JNumber 5,
       Result = Some (ResCallTool
         \<lparr>Content = [\<lparr>Content.Type = ''text'',
            Text =
              ''1. Flipkart - E-commerce platform offering electronics, fashion, home essentials\<newline>'' @
              ''2. Amazon India - Global e-commerce platform with wide product range\<newline>'' @
              ''3. Reliance Digital - Electronics and appliances retailer\<newline>'' @
              ''4. Myntra - Fashion and lifestyle e-commerce platform\<newline>'' @
              ''5. Snapdeal - E-commerce platform with various product categories\<newline>'' @
              ''6. Tata CLiQ - Digital commerce platform by Tata Group''\<rparr>],
          IsError = False\<rparr>),
       Error = None\<rparr>) \<and>
     Result (snd (handleCallTool \<lparr>initialized = True\<rparr> (JNumber 5)
       (Some (JObject [(''name'', JString ''list_indian_stores'')])))) =
     Result (snd (handleCallTool \<lparr>initialized = False\<rparr> (JString ''x'')
       (Some (JObject [(''name'', JString ''list_indian_stores''),
                       (''arguments'', JObject [(''city'', JString ''Pune''), (''limit'', JNumber 2)])]))))"
    by blast
  moreover from accepted fits have
    "handleCallTool \<lparr>initialized = True\<rparr> (JNumber 6)
       (Some (JObject [(''name'', JString ''list_indian_stores''),
                       (''arguments'', JObject [(''city'', JString ''Pune''), (''limit'', JNumber 2)])])) =
     (\<lparr>initialized = True\<rparr>,
      \<lparr>JSONRPCResponse.JsonRPC = ''2.0'', ID = JNumber 6,
       Result = Some (ResCallTool
         \<lparr>Content = [\<lparr>Content.Type = ''text'',
            Text =
              ''1. Flipkart - E-commerce platform offering electronics, fashion, home essentials\<newline>'' @
              ''2. Amazon India - Global e-commerce platform with wide product range\<newline>'' @
              ''3. Reliance Digital - Electronics and appliances retailer\<newline>'' @
              ''4. Myntra - Fashion and lifestyle e-commerce platform\<newline>'' @
              ''5. Snapdeal - E-commerce platform with various product categories\<newline>'' @
              ''6. Tata CLiQ - Digital commerce platform by Tata Group''\<rparr>],
          IsError = False\<rparr>),
       Error = None\<rparr>)"
    by blast
  moreover from refused misfit have
    "handleCallTool \<lparr>initialized = True\<rparr> (JNumber 7)
       (Some (JObject [(''name'', JString ''list_indian_stores''),
                       (''arguments'', JObject [(''n'', JNumber (10 ^ 400))])])) =
     (\<lparr>initialized = True\<rparr>,
      \<lparr>JSONRPCResponse.JsonRPC = ''2.0'', ID = JNumber 7, Result = None,
       Error = Some \<lparr>Code = - 32602, Message = ''Invalid params'',
                     Data = Some (ErrorText UnmarshalTypeError)\<rparr>\<rparr>)"
    by blast
  ultimately show ?thesis
    by blast
qed

text \<open>
  C8: when the parameters of initialize or of tools/call do not decode, the handler answers
  with the error -32602 and the server stays in the state it was in; the same holds through
  the dispatcher.
\<close>

theorem invalid_params_no_transition:
  "(Unmarshal_InitializeParams params = Inl err \<longrightarrow>
    handleInitialize s id' params =
      (s, \<lparr>JSONRPCResponse.JsonRPC = ''2.0'', ID = id', Result = None,
           Error = Some \<lparr>Code = - 32602, Message = ''Invalid params'', Data = Some (ErrorText err)\<rparr>\<rparr>)) \<and>
   (Unmarshal_CallToolParams params = Inl err \<longrightarrow>
    handleCallTool s id' params =
      (s, \<lparr>JSONRPCResponse.JsonRPC = ''2.0'', ID = id', Result = None,
           Error = Some \<lparr>Code = - 32602, Message = ''Invalid params'', Data = Some (ErrorText err)\<rparr>\<rparr>)) \<and>
   (JSONRPCRequest.Method req = ''initialize'' \<and>
    Unmarshal_InitializeParams (Params req) = Inl err \<longrightarrow>
    handleRequest s req =
      (s, \<lparr>JSONRPCResponse.JsonRPC = ''2.0'', ID = JSONRPCRequest.ID req, Result = None,
           Error = Some \<lparr>Code = - 32602, Message = ''Invalid params'', Data = Some (ErrorText err)\<rparr>\<rparr>)) \<and>
   (initialized s \<and> JSONRPCRequest.Method req = ''tools/call'' \<and>
    Unmarshal_CallToolParams (Params req) = Inl err \<longrightarrow>
    handleRequest s req =
      (s, \<lparr>JSONRPCResponse.JsonRPC = ''2.0'', ID = JSONRPCRequest.ID req, Result = None,
           Error = Some \<lparr>Code = - 32602, Message = ''Invalid params'', Data = Some (ErrorText err)\<rparr>\<rparr>))"
  by (simp add: handleRequest_def handleInitialize_def handleCallTool_def sendError_def)

text \<open>
  An initialize whose parameters are a JSON array, on a new server, and a tools/call
  without parameters, on a ready server.
\<close>

theorem invalid_params_no_transition_witness:
  "handleRequest NewMCPServer
     \<lparr>JSONRPCRequest.JsonRPC = ''2.0'', ID = JNumber 1, Method = ''initialize'',
      Params = Some (JArray [])\<rparr> =
   (NewMCPServer,
    \<lparr>JSONRPCResponse.JsonRPC = ''2.0'', ID = JNumber 1, Result = None,
     Error = Some \<lparr>Code = - 32602, Message = ''Invalid params'',
                   Data = Some (ErrorText UnmarshalTypeError)\<rparr>\<rparr>) \<and>
   handleInitialize NewMCPServer (JNumber 1) (Some (JArray [])) =
   (NewMCPServer,
    \<lparr>JSONRPCResponse.JsonRPC = ''2.0'', ID = JNumber 1, Result = None,
     Error = Some \<lparr>Code = - 32602, Message = ''Invalid params'',
                   Data = Some (ErrorText UnmarshalTypeError)\<rparr>\<rparr>) \<and>
   handleRequest \<lparr>initialized = True\<rparr>
     \<lparr>JSONRPCRequest.JsonRPC = ''2.0'', ID = JNumber 2, Method = ''tools/call'', Params = None\<rparr> =
   (\<lparr>initialized = True\<rparr>,
    \<lparr>JSONRPCResponse.JsonRPC = ''2.0'', ID = JNumber 2, Result = None,
     Error = Some \<lparr>Code = - 32602, Message = ''Invalid params'', Data = Some (ErrorText SyntaxError)\<rparr>\<rparr>) \<and>
   handleCallTool \<lparr>initialized = True\<rparr> (JNumber 2) None =
   (\<lparr>initialized = True\<rparr>,
    \<lparr>JSONRPCResponse.JsonRPC = ''2.0'', ID = JNumber 2, Result = None,
     Error = Some \<lparr>Code = - 32602, Message = ''Invalid params'', Data = Some (ErrorText SyntaxError)\<rparr>\<rparr>)"
proof -
  have rejected1: "Unmarshal_InitializeParams (Some (JArray [])) = Inl UnmarshalTypeError"
    by (simp add: eval_defs)
  have rejected2: "Unmarshal_CallToolParams None = Inl SyntaxError"
    by (simp add: eval_defs)
  from rejected1 rejected2
    invalid_params_no_transition [where s = NewMCPServer and id' = "JNumber 1"
      and params = "Some (JArray [])" and err = UnmarshalTypeError
      and req = "\<lparr>JSONRPCRequest.JsonRPC = ''2.0'', ID = JNumber 1, Method = ''initialize'',
        Params = Some (JArray [])\<rparr>"]
    invalid_params_no_transition [where s = "\<lparr>initialized = True\<rparr>" and id' = "JNumber 2"
      and params = None and err = SyntaxError
      and req = "\<lparr>JSONRPCRequest.JsonRPC = ''2.0'', ID = JNumber 2, Method = ''tools/call'', Params = None\<rparr>"]
  show ?thesis
    by (simp add: NewMCPServer_def)
qed

text \<open>
  C9: for every method but the notification, every state and every parameters, the
  response of the dispatcher holds either a result or an error, never both and never
  neither. The notification alone gets the value with every field zero, which is what the
  dispatcher returns for ``no response'', and the server is left as it was.
\<close>

theorem result_xor_error:
  "(JSONRPCRequest.Method req \<noteq> ''notifications/initialized'' \<longrightarrow>
      (Result (snd (handleRequest s req)) = None) \<noteq> (Error (snd (handleRequest s req)) = None)) \<and>
   (JSONRPCRequest.Method req = ''notifications/initialized'' \<longrightarrow>
      handleRequest s req = (s, noResponse)) \<and>
   (snd (handleRequest s req) = noResponse \<longrightarrow>
      JSONRPCRequest.Method req = ''notifications/initialized'')"
  by (auto simp: handler_defs split: sum.splits)

text \<open>A ping and the notification on a new server.\<close>

theorem result_xor_error_witness:
  "(Result (snd (handleRequest NewMCPServer
      \<lparr>JSONRPCRequest.JsonRPC = ''2.0'', ID = JNumber 1, Method = ''ping'', Params = None\<rparr>)) = None) \<noteq>
   (Error (snd (handleRequest NewMCPServer
      \<lparr>JSONRPCRequest.JsonRPC = ''2.0'', ID = JNumber 1, Method = ''ping'', Params = None\<rparr>)) = None) \<and>
   handleRequest NewMCPServer
     \<lparr>JSONRPCRequest.JsonRPC = ''2.0'', ID = JNull, Method = ''notifications/initialized'', Params = None\<rparr> =
   (NewMCPServer, noResponse)"
  using
    result_xor_error [where s = NewMCPServer
      and req = "\<lparr>JSONRPCRequest.JsonRPC = ''2.0'', ID = JNumber 1, Method = ''ping'', Params = None\<rparr>"]
    result_xor_error [where s = NewMCPServer
      and req = "\<lparr>JSONRPCRequest.JsonRPC = ''2.0'', ID = JNull, Method = ''notifications/initialized'',
        Params = None\<rparr>"]
  by simp

text \<open>
  C10, as the claim states it: initialize without parameters is refused, and every JSON
  object is accepted as parameters. The second half fails on the object
  \<^verbatim>\<open>{"protocolVersion":1}\<close>: a number does not fit the string field, the handshake
  is refused with the error -32602 and the server stays as it was.
\<close>

theorem initialize_rejects_number_as_version:
  "handleRequest NewMCPServer
     \<lparr>JSONRPCRequest.JsonRPC = ''2.0'', ID = JNumber 1, Method = ''initialize'',
      Params = Some (JObject [(''protocolVersion'', JNumber 1)])\<rparr> =
   (\<lparr>initialized = False\<rparr>,
    \<lparr>JSONRPCResponse.JsonRPC = ''2.0'', ID = JNumber 1, Result = None,
     Error = Some \<lparr>Code = - 32602, Message = ''Invalid params'',
                   Data = Some (ErrorText UnmarshalTypeError)\<rparr>\<rparr>)"
  by (simp add: handleRequest_def handleInitialize_def sendError_def NewMCPServer_def eval_defs)

text \<open>
  C10, amended: initialize without parameters is refused with the error -32602 and the
  server stays as it was; a JSON object is accepted as parameters, and the server made
  ready, exactly when its members fit the structure of the handshake (each member named,
  ignoring case, protocolVersion, capabilities or clientInfo, and inside these experimental,
  sampling, name or version, holds a value of the JSON kind of its field or null); this
  includes the empty object. An object with a member that does not fit is refused with the
  error -32602 and the server stays as it was.
\<close>

theorem initialize_accepts_fitting_objects:
  "(JSONRPCRequest.Method req = ''initialize'' \<and> Params req = None \<longrightarrow>
    handleRequest s req =
      (s, \<lparr>JSONRPCResponse.JsonRPC = ''2.0'', ID = JSONRPCRequest.ID req, Result = None,
           Error = Some \<lparr>Code = - 32602, Message = ''Invalid params'',
                         Data = Some (ErrorText SyntaxError)\<rparr>\<rparr>)) \<and>
   (JSONRPCRequest.Method req = ''initialize'' \<and> Params req = Some (JObject kvs) \<and>
    fitsInitializeParams (JObject kvs) \<longrightarrow>
    handleRequest s req =
      (s\<lparr>initialized := True\<rparr>,
       \<lparr>JSONRPCResponse.JsonRPC = ''2.0'', ID = JSONRPCRequest.ID req,
        Result = Some (ResInitialize initializeResult), Error = None\<rparr>)) \<and>
   (JSONRPCRequest.Method req = ''initialize'' \<and> Params req = Some (JObject kvs) \<and>
    \<not> fitsInitializeParams (JObject kvs) \<longrightarrow>
    handleRequest s req =
      (s, \<lparr>JSONRPCResponse.JsonRPC = ''2.0'', ID = JSONRPCRequest.ID req, Result = None,
           Error = Some \<lparr>Code = - 32602, Message = ''Invalid params'',
                         Data = Some (ErrorText UnmarshalTypeError)\<rparr>\<rparr>))"
proof (intro conjI impI)
  assume "JSONRPCRequest.Method req = ''initialize'' \<and> Params req = None"
  then show "handleRequest s req =
      (s, \<lparr>JSONRPCResponse.JsonRPC = ''2.0'', ID = JSONRPCRequest.ID req, Result = None,
           Error = Some \<lparr>Code = - 32602, Message = ''Invalid params'',
                         Data = Some (ErrorText SyntaxError)\<rparr>\<rparr>)"
    by (simp add: handleRequest_def handleInitialize_def sendError_def Unmarshal_InitializeParams_def)
next
  assume a: "JSONRPCRequest.Method req = ''initialize'' \<and> Params req = Some (JObject kvs) \<and>
    fitsInitializeParams (JObject kvs)"
  then have "\<not> isl (Unmarshal_InitializeParams (Params req))"
    by (simp add: Unmarshal_InitializeParams_isl)
  with a show "handleRequest s req =
      (s\<lparr>initialized := True\<rparr>,
       \<lparr>JSONRPCResponse.JsonRPC = ''2.0'', ID = JSONRPCRequest.ID req,
        Result = Some (ResInitialize initializeResult), Error = None\<rparr>)"
    by (intro handleRequest_initialize_accepted) simp_all
next
  assume a: "JSONRPCRequest.Method req = ''initialize'' \<and> Params req = Some (JObject kvs) \<and>
    \<not> fitsInitializeParams (JObject kvs)"
  then have "isl (Unmarshal_InitializeParams (Some (JObject kvs)))"
    by (simp add: Unmarshal_InitializeParams_isl)
  then obtain e where e: "Unmarshal_InitializeParams (Some (JObject kvs)) = Inl e"
    by (auto simp: isl_def)
  then have "e = UnmarshalTypeError"
    by (rule Unmarshal_InitializeParams_error)
  with a e show "handleRequest s req =
      (s, \<lparr>JSONRPCResponse.JsonRPC = ''2.0'', ID = JSONRPCRequest.ID req, Result = None,
           Error = Some \<lparr>Code = - 32602, Message = ''Invalid params'',
                         Data = Some (ErrorText UnmarshalTypeError)\<rparr>\<rparr>)"
    by (simp add: handleRequest_def handleInitialize_def sendError_def)
qed

text \<open>
  On a new server: no parameters; the empty object; an object with every field and a
  member the structure does not know; an object whose client name is a number.
\<close>

theorem initialize_accepts_fitting_objects_witness:
  "handleRequest NewMCPServer
     \<lparr>JSONRPCRequest.JsonRPC = ''2.0'', ID = JNumber 1, Method = ''initialize'', Params = None\<rparr> =
   (NewMCPServer,
    \<lparr>JSONRPCResponse.JsonRPC = ''2.0'', ID = JNumber 1, Result = None,
     Error = Some \<lparr>Code = - 32602, Message = ''Invalid params'', Data = Some (ErrorText SyntaxError)\<rparr>\<rparr>) \<and>
   handleRequest NewMCPServer
     \<lparr>JSONRPCRequest.JsonRPC = ''2.0'', ID = JNumber 2, Method = ''initialize'', Params = Some (JObject [])\<rparr> =
   (\<lparr>initialized = True\<rparr>,
    \<lparr>JSONRPCResponse.JsonRPC = ''2.0'', ID = JNumber 2,
     Result = Some (ResInitialize initializeResult), Error = None\<rparr>) \<and>
   handleRequest NewMCPServer
     \<lparr>JSONRPCRequest.JsonRPC = ''2.0'', ID = JNumber 3, Method = ''initialize'',
      Params = Some (JObject [(''protocolVersion'', JString ''2025-06-18''),
                             (''capabilities'', JObject [(''experimental'', JObject [(''x'', JNumber 1)])]),
                             (''clientInfo'', JObject [(''name'', JString ''c''), (''version'', JNull)]),
                             (''extra'', JNumber 0)])\<rparr> =
   (\<lparr>initialized = True\<rparr>,
    \<lparr>JSONRPCResponse.JsonRPC = ''2.0'', ID = JNumber 3,
     Result = Some (ResInitialize initializeResult), Error = None\<rparr>) \<and>
   handleRequest NewMCPServer
     \<lparr>JSONRPCRequest.JsonRPC = ''2.0'', ID = JNumber 4, Method = ''initialize'',
      Params = Some (JObject [(''clientInfo'', JObject [(''name'', JNumber 5)])])\<rparr> =
   (NewMCPServer,
    \<lparr>JSONRPCResponse.JsonRPC = ''2.0'', ID = JNumber 4, Result = None,
     Error = Some \<lparr>Code = - 32602, Message = ''Invalid params'',
                   Data = Some (ErrorText UnmarshalTypeError)\<rparr>\<rparr>)"
proof -
  have fits1: "fitsInitializeParams (JObject [])"
    by (simp add: fitsInitializeParams_def)
  have fits2: "fitsInitializeParams
      (JObject [(''protocolVersion'', JString ''2025-06-18''),
                (''capabilities'', JObject [(''experimental'', JObject [(''x'', JNumber 1)])]),
                (''clientInfo'', JObject [(''name'', JString ''c''), (''version'', JNull)]),
                (''extra'', JNumber 0)])"
    by (simp add: fitsInitializeParams_def fitsClientCapabilities_def fitsClientInfo_def fitsMap_def
        fitsString_def inFloat64Range_def upperASCII_def char_of_eq_iff)
  have misfit: "\<not> fitsInitializeParams (JObject [(''clientInfo'', JObject [(''name'', JNumber 5)])])"
    by (simp add: fitsInitializeParams_def fitsClientInfo_def fitsString_def upperASCII_def char_of_eq_iff)
  from fits1 fits2 misfit
    initialize_accepts_fitting_objects [where s = NewMCPServer
      and req = "\<lparr>JSONRPCRequest.JsonRPC = ''2.0'', ID = JNumber 1, Method = ''initialize'', Params = None\<rparr>"]
    initialize_accepts_fitting_objects [where s = NewMCPServer and kvs = "[]"
      and req = "\<lparr>JSONRPCRequest.JsonRPC = ''2.0'', ID = JNumber 2, Method = ''initialize'',
        Params = Some (JObject [])\<rparr>"]
    initialize_accepts_fitting_objects [where s = NewMCPServer
      and kvs = "[(''protocolVersion'', JString ''2025-06-18''),
                 (''capabilities'', JObject [(''experimental'', JObject [(''x'', JNumber 1)])]),
                 (''clientInfo'', JObject [(''name'', JString ''c''), (''version'', JNull)]),
                 (''extra'', JNumber 0)]"
      and req = "\<lparr>JSONRPCRequest.JsonRPC = ''2.0'', ID = JNumber 3, Method = ''initialize'',
        Params = Some (JObject [(''protocolVersion'', JString ''2025-06-18''),
                               (''capabilities'', JObject [(''experimental'', JObject [(''x'', JNumber 1)])]),
                               (''clientInfo'', JObject [(''name'', JString ''c''), (''version'', JNull)]),
                               (''extra'', JNumber 0)])\<rparr>"]
    initialize_accepts_fitting_objects [where s = NewMCPServer
      and kvs = "[(''clientInfo'', JObject [(''name'', JNumber 5)])]"
      and req = "\<lparr>JSONRPCRequest.JsonRPC = ''2.0'', ID = JNumber 4, Method = ''initialize'',
        Params = Some (JObject [(''clientInfo'', JObject [(''name'', JNumber 5)])])\<rparr>"]
  show ?thesis
    by (simp add: NewMCPServer_def)
qed


end
